theory Spec2Isabelle
  imports Main
begin

section \<open>Data model\<close>

text \<open>
  The scheduler of \<^verbatim>\<open>pkg/scheduler/controller/shoot/reconciler.go\<close> works on three kinds
  of API objects. Each Go struct is a record; a Go pointer field that may be nil is an
  \<open>option\<close>; a Go map is a partial function. The nested \<^verbatim>\<open>Spec\<close>/\<^verbatim>\<open>Status\<close> structs are
  flattened into the record of the object, and the Go path of a field is given where the
  field name alone does not say it.
\<close>

type_synonym Time = nat

record ObjectMeta =
  Name :: string
  Namespace :: string
  Labels :: "string \<rightharpoonup> string"
  DeletionTimestamp :: "Time option"

record Toleration =
  tolerationKey :: string
  tolerationValue :: "string option"

record SeedTaint =
  taintKey :: string
  taintValue :: "string option"

record LabelSelectorRequirement =
  requirementKey :: string
  requirementOperator :: string
  requirementValues :: "string list"

record LabelSelector =
  MatchLabels :: "string \<rightharpoonup> string"
  MatchExpressions :: "LabelSelectorRequirement list"

record SeedSelector =
  LabelSelector :: LabelSelector
  ProviderTypes :: "string list"

record Networking =
  shootNodes :: "string option"
  shootPods :: "string option"
  shootServices :: "string option"

record ShootNetworks =
  defaultPods :: "string option"
  defaultServices :: "string option"

record SeedNetworks =
  seedNodes :: "string option"
  seedPods :: string
  seedServices :: string
  ShootDefaults :: "ShootNetworks option"

record Condition =
  Type :: string
  Status :: string

record Shoot =
  shootMeta :: ObjectMeta
  CloudProfileName :: string
  Region :: string
  shootProviderType :: string
  Networking :: Networking
  Tolerations :: "Toleration list"
  shootSeedSelector :: "SeedSelector option"
  Purpose :: "string option"
  FailureToleranceType :: "string option"
  SeedName :: "string option"

record Seed =
  seedMeta :: ObjectMeta
  Taints :: "SeedTaint list"
  Visible :: bool
  seedProviderType :: string
  seedProviderRegion :: string
  Zones :: "string list"
  Networks :: SeedNetworks
  Backup :: "unit option"
  Conditions :: "Condition list"
  Allocatable :: "string \<rightharpoonup> int"

record CloudProfile =
  cloudProfileMeta :: ObjectMeta
  cloudProfileSeedSelector :: "SeedSelector option"

text \<open>
  \<open>shootProviderType\<close> is \<^verbatim>\<open>shoot.Spec.Provider.Type\<close>, \<open>FailureToleranceType\<close> is
  \<^verbatim>\<open>shoot.Spec.ControlPlane.HighAvailability.FailureTolerance.Type\<close> (\<open>None\<close> when the control
  plane or its high availability is not set), \<open>Visible\<close> is
  \<^verbatim>\<open>seed.Spec.Settings.Scheduling.Visible\<close> (a boolean that every Seed has, as the spec
  gives it), \<open>Backup\<close> records only whether
  \<^verbatim>\<open>seed.Spec.Backup\<close> is set, and \<open>Allocatable\<close> maps a resource name to the
  \<^verbatim>\<open>Value()\<close> of its quantity.
\<close>

subsection \<open>Constants of the API and configuration packages\<close>

text \<open>Modelled from the spec: the constants of \<^verbatim>\<open>gardencorev1beta1\<close> and
  \<^verbatim>\<open>config\<close> that the scheduler names; their declarations are not part of the sources at
  hand, the spec gives their values.\<close>

definition ShootPurposeTesting :: string where
  "ShootPurposeTesting = ''testing''"

definition FailureToleranceTypeZone :: string where
  "FailureToleranceTypeZone = ''zone''"

definition SameRegion :: string where
  "SameRegion = ''SameRegion''"

definition MinimalDistance :: string where
  "MinimalDistance = ''MinimalDistance''"

definition Strategies :: "string list" where
  "Strategies = [SameRegion, MinimalDistance]"

definition SeedBootstrapped :: string where
  "SeedBootstrapped = ''Bootstrapped''"

definition SeedGardenletReady :: string where
  "SeedGardenletReady = ''GardenletReady''"

definition SeedBackupBucketsReady :: string where
  "SeedBackupBucketsReady = ''BackupBucketsReady''"

definition ConditionTrue :: string where
  "ConditionTrue = ''True''"

definition ResourceShoots :: string where
  "ResourceShoots = ''shoots''"

subsection \<open>Errors, outcomes, events\<close>

datatype clientError = NotFound | Conflict | StoreError string

definition IsNotFound :: "clientError \<Rightarrow> bool" where
  "IsNotFound err \<longleftrightarrow> err = NotFound"

text \<open>
  Every \<^verbatim>\<open>fmt.Errorf\<close> of the source is one constructor, holding the arguments of its
  format string in their order:
  \<^item> \<open>ErrClient\<close>: an error of the client, returned as it is;
  \<^item> \<open>ErrRetrievingObject\<close>: ``error retrieving object from store: %w'';
  \<^item> \<open>ErrNoUsableSeeds\<close>: ``none of the %d seeds is valid for scheduling (not deleting,
    visible and ready)'';
  \<^item> \<open>ErrLabelSelectorConversion\<close>: ``label selector conversion failed: %v for
    seedSelector: %w'';
  \<^item> \<open>ErrNoMatchingLabels\<close>: ``none out of the %d seeds has the matching labels required
    by seed selector of '%s' (selector: '%s')'';
  \<^item> \<open>ErrNoMatchingProvider\<close>: ``none out of the %d seeds has a matching provider for %q'';
  \<^item> \<open>ErrNoSeedWithThreeZones\<close>: ``none of the %d seeds has at least 3 zones for hosting
    a shoot control plane with failure tolerance type 'zone''';
  \<^item> \<open>ErrUnknownStrategy\<close>: ``failed to determine seed candidates. shoot purpose: '%s',
    strategy: '%s', valid strategies are: %v'';
  \<^item> \<open>ErrNoMatchingCandidate\<close>: ``no matching seed candidate found for Configuration
    (Cloud Profile '%s', Region '%s', SeedDeterminationStrategy '%s')'';
  \<^item> \<open>ErrNoEligibleCandidates\<close>: ``0/%d seed cluster candidate(s) are eligible for
    scheduling: %v''.
\<close>

datatype error =
    ErrClient clientError
  | ErrRetrievingObject clientError
  | ErrNoUsableSeeds nat
  | ErrLabelSelectorConversion LabelSelector string
  | ErrNoMatchingLabels nat string string
  | ErrNoMatchingProvider nat string
  | ErrNoSeedWithThreeZones nat
  | ErrUnknownStrategy string string "string list"
  | ErrNoMatchingCandidate string string string
  | ErrNoEligibleCandidates nat string

text \<open>A Go function of the scheduler returns its value, returns an error, or panics
  (a nil pointer dereference).\<close>

datatype 'a outcome = Return 'a | Fail error | Panic

fun bind :: "'a outcome \<Rightarrow> ('a \<Rightarrow> 'b outcome) \<Rightarrow> 'b outcome" where
  "bind (Return x) f = f x"
| "bind (Fail e) f = Fail e"
| "bind Panic f = Panic"

datatype eventType = EventTypeNormal | EventTypeWarning

datatype eventReason = ShootEventSchedulingSuccessful | ShootEventSchedulingFailed

text \<open>The two messages: ``Scheduled to seed '%s''' and ``Failed to schedule shoot '%s':
  %+v''.\<close>

datatype eventMessage = ScheduledToSeed string | FailedToSchedule string error

record event =
  involvedObject :: Shoot
  eventType :: eventType
  eventReason :: eventReason
  eventMessage :: eventMessage

subsection \<open>What the scheduler takes from outside\<close>

text \<open>
  The functions below are called by the scheduler and defined elsewhere: \<open>distance\<close> in
  another file of the package, \<open>ValidateNetworkDisjointedness\<close> (the bodies of the field
  errors it returns) and \<open>TaintsAreTolerated\<close> in other packages of the repository, the
  label selector functions in the Kubernetes library. They are parameters, so every
  theorem holds for whatever they compute. \<open>rangeOrder\<close> is the order in which the Go
  runtime ranges over a map in this run: the language leaves it unspecified, it visits
  every key once.
\<close>

record 'sel env =
  distance :: "string \<Rightarrow> string \<Rightarrow> int"
  ValidateNetworkDisjointedness ::
    "string option \<Rightarrow> string option \<Rightarrow> string option \<Rightarrow> string option \<Rightarrow> string \<Rightarrow> string
      \<Rightarrow> string list"
  TaintsAreTolerated :: "SeedTaint list \<Rightarrow> Toleration list \<Rightarrow> bool"
  LabelSelectorAsSelector :: "LabelSelector \<Rightarrow> string + 'sel"
  Matches :: "'sel \<Rightarrow> (string \<rightharpoonup> string) \<Rightarrow> bool"
  SelectorString :: "'sel \<Rightarrow> string"
  rangeOrder :: "(string \<rightharpoonup> string) \<Rightarrow> string list"

definition validRangeOrder :: "'sel env \<Rightarrow> (string \<rightharpoonup> string) \<Rightarrow> bool" where
  "validRangeOrder h m \<longleftrightarrow> distinct (rangeOrder h m) \<and> set (rangeOrder h m) = dom m"

text \<open>The client: what each call of this reconcile answers.\<close>

record client =
  GetShoot :: "string \<times> string \<Rightarrow> clientError + Shoot"
  ListSeeds :: "clientError + Seed list"
  ListShoots :: "clientError + Shoot list"
  GetCloudProfile :: "string \<Rightarrow> clientError + CloudProfile"
  UpdateBinding :: "Shoot \<Rightarrow> clientError option"

datatype call =
    GetShootCall "string \<times> string"
  | ListSeedsCall
  | ListShootsCall
  | GetCloudProfileCall string
  | UpdateBindingCall Shoot

record ShootSchedulerConfiguration =
  Strategy :: string

record Reconciler =
  Client :: client
  Config :: ShootSchedulerConfiguration

section \<open>Helpers of the API package\<close>

text \<open>Modelled from the spec: \<^verbatim>\<open>v1beta1helper.GetCondition\<close>, the condition of the given
  type when one is present.\<close>

definition GetCondition :: "Condition list \<Rightarrow> string \<Rightarrow> Condition option" where
  "GetCondition conditions conditionType = find (\<lambda>c. Type c = conditionType) conditions"

text \<open>Modelled from the spec: \<^verbatim>\<open>v1beta1helper.IsMultiZonalShootControlPlane\<close>, the Shoot
  declares the failure tolerance type \<^verbatim>\<open>zone\<close>.\<close>

definition IsMultiZonalShootControlPlane :: "Shoot \<Rightarrow> bool" where
  "IsMultiZonalShootControlPlane shoot \<longleftrightarrow>
     FailureToleranceType shoot = Some FailureToleranceTypeZone"

text \<open>Modelled from the spec: \<^verbatim>\<open>v1beta1helper.CalculateSeedUsage\<close>, for every Seed name
  the number of Shoots of the snapshot whose \<^verbatim>\<open>seedName\<close> is that name. The Go map
  answers 0 for a name it does not hold.\<close>

definition CalculateSeedUsage :: "Shoot list \<Rightarrow> string \<Rightarrow> int" where
  "CalculateSeedUsage shootList name =
     int (length (filter (\<lambda>shoot. SeedName shoot = Some name) shootList))"

section \<open>The candidate pipeline\<close>

subsection \<open>Stage A: usable Seeds\<close>

definition conditionIsTrue :: "Condition option \<Rightarrow> bool" where
  "conditionIsTrue cond \<longleftrightarrow> (case cond of None \<Rightarrow> False | Some c \<Rightarrow> Status c = ConditionTrue)"

definition verifySeedReadiness :: "Seed \<Rightarrow> bool" where
  "verifySeedReadiness seed =
     (if \<not> conditionIsTrue (GetCondition (Conditions seed) SeedBootstrapped) then False
      else if \<not> conditionIsTrue (GetCondition (Conditions seed) SeedGardenletReady) then False
      else if Backup seed \<noteq> None
              \<and> \<not> conditionIsTrue (GetCondition (Conditions seed) SeedBackupBucketsReady)
           then False
      else True)"

definition isUsableSeed :: "Seed \<Rightarrow> bool" where
  "isUsableSeed seed \<longleftrightarrow>
     DeletionTimestamp (seedMeta seed) = None \<and> Visible seed \<and> verifySeedReadiness seed"

definition filterUsableSeeds :: "Seed list \<Rightarrow> Seed list outcome" where
  "filterUsableSeeds seedList =
     (let matchingSeeds = filter isUsableSeed seedList
      in if length matchingSeeds = 0 then Fail (ErrNoUsableSeeds (length seedList))
         else Return matchingSeeds)"

subsection \<open>Stage B: label selectors\<close>

definition filterSeedsMatchingLabelSelector ::
  "'sel env \<Rightarrow> Seed list \<Rightarrow> SeedSelector option \<Rightarrow> string \<Rightarrow> Seed list outcome" where
  "filterSeedsMatchingLabelSelector h seedList seedSelector kind =
     (case seedSelector of
        None \<Rightarrow> Return seedList
      | Some sel \<Rightarrow>
          (case LabelSelectorAsSelector h (LabelSelector sel) of
             Inl err \<Rightarrow> Fail (ErrLabelSelectorConversion (LabelSelector sel) err)
           | Inr selector \<Rightarrow>
               (let matchingSeeds =
                      filter (\<lambda>seed. Matches h selector (Labels (seedMeta seed))) seedList
                in if length matchingSeeds = 0
                   then Fail (ErrNoMatchingLabels (length seedList) kind
                                (SelectorString h selector))
                   else Return matchingSeeds)))"

subsection \<open>Stage C: providers\<close>

definition matchProvider :: "string \<Rightarrow> string \<Rightarrow> string list \<Rightarrow> bool" where
  "matchProvider seedProviderType' shootProviderType' enabledProviderTypes =
     (if length enabledProviderTypes = 0 then seedProviderType' = shootProviderType'
      else list_ex (\<lambda>p. p = ''*'' \<or> p = seedProviderType') enabledProviderTypes)"

definition filterSeedsMatchingProviders ::
  "CloudProfile \<Rightarrow> Shoot \<Rightarrow> Seed list \<Rightarrow> Seed list outcome" where
  "filterSeedsMatchingProviders cloudProfile shoot seedList =
     (let possibleProviders =
            (case cloudProfileSeedSelector cloudProfile of
               None \<Rightarrow> []
             | Some sel \<Rightarrow> ProviderTypes sel);
          matchingSeeds =
            filter (\<lambda>seed. matchProvider (seedProviderType seed) (shootProviderType shoot)
                              possibleProviders) seedList
      in if length matchingSeeds = 0
         then Fail (ErrNoMatchingProvider (length seedList) (shootProviderType shoot))
         else Return matchingSeeds)"

subsection \<open>Stage D: zones\<close>

definition filterSeedsForZonalShootControlPlanes ::
  "Seed list \<Rightarrow> Shoot \<Rightarrow> Seed list outcome" where
  "filterSeedsForZonalShootControlPlanes seedList shoot =
     (if IsMultiZonalShootControlPlane shoot then
        (let seedsWithAtLeastThreeZones = filter (\<lambda>seed. length (Zones seed) \<ge> 3) seedList
         in if length seedsWithAtLeastThreeZones = 0
            then Fail (ErrNoSeedWithThreeZones (length seedList))
            else Return seedsWithAtLeastThreeZones)
      else Return seedList)"

subsection \<open>Stage E: networks, taints, capacity\<close>

text \<open>Go prints a \<^verbatim>\<open>[]string\<close> under \<^verbatim>\<open>%s\<close> as its elements between brackets, separated by
  one space.\<close>

fun joinWithSpace :: "string list \<Rightarrow> string" where
  "joinWithSpace [] = []"
| "joinWithSpace [x] = x"
| "joinWithSpace (x # y # ys) = x @ '' '' @ joinWithSpace (y # ys)"

definition networksAreDisjointed :: "'sel env \<Rightarrow> Seed \<Rightarrow> Shoot \<Rightarrow> bool \<times> string" where
  "networksAreDisjointed h seed shoot =
     (let shootPodsNetwork = shootPods (Networking shoot);
          shootServicesNetwork = shootServices (Networking shoot);
          shootPodsNetwork =
            (case ShootDefaults (Networks seed) of
               None \<Rightarrow> shootPodsNetwork
             | Some d \<Rightarrow> if shootPodsNetwork = None then defaultPods d else shootPodsNetwork);
          shootServicesNetwork =
            (case ShootDefaults (Networks seed) of
               None \<Rightarrow> shootServicesNetwork
             | Some d \<Rightarrow> if shootServicesNetwork = None then defaultServices d
                         else shootServicesNetwork);
          errorMessages =
            ValidateNetworkDisjointedness h
              (shootNodes (Networking shoot)) shootPodsNetwork shootServicesNetwork
              (seedNodes (Networks seed)) (seedPods (Networks seed))
              (seedServices (Networks seed))
      in (length errorMessages = 0,
          ''invalid networks: ['' @ joinWithSpace errorMessages @ '']''))"

definition TrimSuffix :: "string \<Rightarrow> string \<Rightarrow> string" where
  "TrimSuffix s suffix =
     (if length suffix \<le> length s \<and> drop (length s - length suffix) s = suffix
      then take (length s - length suffix) s else s)"

text \<open>The loop of \<open>errorMapToString\<close> ranges over the map in the order of this run.\<close>

fun errorMapToString_loop :: "(string \<rightharpoonup> string) \<Rightarrow> string list \<Rightarrow> string \<Rightarrow> string" where
  "errorMapToString_loop errs [] res = res"
| "errorMapToString_loop errs (k # ks) res =
     (case errs k of
        None \<Rightarrow> errorMapToString_loop errs ks res
      | Some v \<Rightarrow> errorMapToString_loop errs ks (res @ k @ '' => '' @ v @ '', ''))"

definition errorMapToString :: "'sel env \<Rightarrow> (string \<rightharpoonup> string) \<Rightarrow> string" where
  "errorMapToString h errs =
     (let res = errorMapToString_loop errs (rangeOrder h errs) ''{''
      in TrimSuffix res '', '' @ ''}'')"

text \<open>The loop of \<open>filterCandidates\<close>, with its two variables \<open>candidates\<close> and
  \<open>candidateErrors\<close>; the map holds the text of each error.\<close>

fun filterCandidates_loop ::
  "'sel env \<Rightarrow> Shoot \<Rightarrow> (string \<Rightarrow> int) \<Rightarrow> Seed list \<Rightarrow> Seed list \<times> (string \<rightharpoonup> string)
    \<Rightarrow> Seed list \<times> (string \<rightharpoonup> string)" where
  "filterCandidates_loop h shoot seedUsage [] acc = acc"
| "filterCandidates_loop h shoot seedUsage (seed # rest) (candidates, candidateErrors) =
     (case networksAreDisjointed h seed shoot of
        (disjointed, err) \<Rightarrow>
          if \<not> disjointed then
            filterCandidates_loop h shoot seedUsage rest
              (candidates, candidateErrors(Name (seedMeta seed) \<mapsto> err))
          else if \<not> TaintsAreTolerated h (Taints seed) (Tolerations shoot) then
            filterCandidates_loop h shoot seedUsage rest
              (candidates,
               candidateErrors(Name (seedMeta seed) \<mapsto>
                 ''shoot does not tolerate the seed's taints''))
          else if (case Allocatable seed ResourceShoots of
                     None \<Rightarrow> False
                   | Some allocatableShoots \<Rightarrow>
                       seedUsage (Name (seedMeta seed)) \<ge> allocatableShoots) then
            filterCandidates_loop h shoot seedUsage rest
              (candidates,
               candidateErrors(Name (seedMeta seed) \<mapsto>
                 ''seed does not have available capacity for shoots''))
          else filterCandidates_loop h shoot seedUsage rest
                 (candidates @ [seed], candidateErrors))"

definition filterCandidates ::
  "'sel env \<Rightarrow> Shoot \<Rightarrow> Shoot list \<Rightarrow> Seed list \<Rightarrow> Seed list outcome" where
  "filterCandidates h shoot shootList seedList =
     (case filterCandidates_loop h shoot (CalculateSeedUsage shootList) seedList
             ([], Map.empty) of
        (candidates, candidateErrors) \<Rightarrow>
          if candidates = []
          then Fail (ErrNoEligibleCandidates (length seedList)
                       (errorMapToString h candidateErrors))
          else Return candidates)"

subsection \<open>Stage F: strategy\<close>

definition determineCandidatesOfSameProvider :: "Seed list \<Rightarrow> Shoot \<Rightarrow> Seed list" where
  "determineCandidatesOfSameProvider seedList shoot =
     filter (\<lambda>seed. seedProviderType seed = shootProviderType shoot) seedList"

definition determineCandidatesWithSameRegionStrategy :: "Seed list \<Rightarrow> Shoot \<Rightarrow> Seed list" where
  "determineCandidatesWithSameRegionStrategy seedList shoot =
     filter (\<lambda>seed. seedProviderType seed = shootProviderType shoot
                    \<and> seedProviderRegion seed = Region shoot) seedList"

text \<open>The loop of the minimal distance strategy, with its two variables \<open>minDistance\<close> and
  \<open>candidates\<close>; \<open>seedDistance\<close> is the value of \<open>dist\<close> that one round compares. Go's
  \<^verbatim>\<open>int\<close> has 64 bits; a distance between two region names stays far below that, so
  \<open>dist + 2\<close> is the sum.\<close>

definition seedDistance :: "'sel env \<Rightarrow> Shoot \<Rightarrow> Seed \<Rightarrow> int" where
  "seedDistance h shoot seed =
     (let dist = distance h (seedProviderRegion seed) (Region shoot)
      in if shootProviderType shoot \<noteq> seedProviderType seed then dist + 2 else dist)"

fun minimalDistance_loop ::
  "'sel env \<Rightarrow> Shoot \<Rightarrow> Seed list \<Rightarrow> int \<times> Seed list \<Rightarrow> int \<times> Seed list" where
  "minimalDistance_loop h shoot [] acc = acc"
| "minimalDistance_loop h shoot (seed # seeds) (minDistance, candidates) =
     (let dist = seedDistance h shoot seed
      in if dist = minDistance then
           minimalDistance_loop h shoot seeds (minDistance, candidates @ [seed])
         else if dist < minDistance then
           minimalDistance_loop h shoot seeds (dist, [seed])
         else minimalDistance_loop h shoot seeds (minDistance, candidates))"

definition determineCandidatesWithMinimalDistanceStrategy ::
  "'sel env \<Rightarrow> Seed list \<Rightarrow> Shoot \<Rightarrow> Seed list" where
  "determineCandidatesWithMinimalDistanceStrategy h seeds shoot =
     snd (minimalDistance_loop h shoot seeds (1000, []))"

text \<open>The \<^verbatim>\<open>default\<close> branch dereferences \<^verbatim>\<open>shoot.Spec.Purpose\<close> to build its error: with a
  nil purpose that is a panic.\<close>

definition applyStrategy :: "'sel env \<Rightarrow> Shoot \<Rightarrow> Seed list \<Rightarrow> string \<Rightarrow> Seed list outcome" where
  "applyStrategy h shoot seedList strategy =
     (let finish = (\<lambda>candidates.
            if candidates = []
            then Fail (ErrNoMatchingCandidate (CloudProfileName shoot) (Region shoot) strategy)
            else Return candidates)
      in if Purpose shoot \<noteq> None \<and> the (Purpose shoot) = ShootPurposeTesting then
           finish (determineCandidatesOfSameProvider seedList shoot)
         else if strategy = SameRegion then
           finish (determineCandidatesWithSameRegionStrategy seedList shoot)
         else if strategy = MinimalDistance then
           finish (determineCandidatesWithMinimalDistanceStrategy h seedList shoot)
         else (case Purpose shoot of
                 None \<Rightarrow> Panic
               | Some purpose \<Rightarrow> Fail (ErrUnknownStrategy purpose strategy Strategies)))"

subsection \<open>Stage G: the Seed with the least Shoots\<close>

text \<open>The zero value of the Go struct, which \<open>bestCandidate\<close> holds before the loop.\<close>

definition zeroObjectMeta :: ObjectMeta where
  "zeroObjectMeta =
     \<lparr>Name = [], Namespace = [], Labels = Map.empty, DeletionTimestamp = None\<rparr>"

definition zeroSeed :: Seed where
  "zeroSeed =
     \<lparr>seedMeta = zeroObjectMeta, Taints = [], Visible = False, seedProviderType = [],
      seedProviderRegion = [], Zones = [],
      Networks = \<lparr>seedNodes = None, seedPods = [], seedServices = [], ShootDefaults = None\<rparr>,
      Backup = None, Conditions = [], Allocatable = Map.empty\<rparr>"

fun leastShoots_loop :: "(string \<Rightarrow> int) \<Rightarrow> Seed list \<Rightarrow> Seed \<times> int option \<Rightarrow> Seed \<times> int option" where
  "leastShoots_loop seedUsage [] acc = acc"
| "leastShoots_loop seedUsage (seed # rest) (bestCandidate, min') =
     (let numberOfManagedShoots = seedUsage (Name (seedMeta seed))
      in if min' = None \<or> numberOfManagedShoots < the min'
         then leastShoots_loop seedUsage rest (seed, Some numberOfManagedShoots)
         else leastShoots_loop seedUsage rest (bestCandidate, min'))"

definition getSeedWithLeastShootsDeployed :: "Seed list \<Rightarrow> Shoot list \<Rightarrow> Seed outcome" where
  "getSeedWithLeastShootsDeployed seedList shootList =
     Return (fst (leastShoots_loop (CalculateSeedUsage shootList) seedList (zeroSeed, None)))"

subsection \<open>The pipeline and the reconcile\<close>

text \<open>The stages of \<open>determineSeed\<close>, after its three reads.\<close>

definition determineSeed_stages ::
  "'sel env \<Rightarrow> Shoot \<Rightarrow> Seed list \<Rightarrow> Shoot list \<Rightarrow> CloudProfile \<Rightarrow> string \<Rightarrow> Seed outcome" where
  "determineSeed_stages h shoot seedList shootList cloudProfile strategy =
     bind (filterUsableSeeds seedList) (\<lambda>filteredSeeds.
     bind (filterSeedsMatchingLabelSelector h filteredSeeds
             (cloudProfileSeedSelector cloudProfile) ''CloudProfile'') (\<lambda>filteredSeeds.
     bind (filterSeedsMatchingLabelSelector h filteredSeeds
             (shootSeedSelector shoot) ''Shoot'') (\<lambda>filteredSeeds.
     bind (filterSeedsMatchingProviders cloudProfile shoot filteredSeeds) (\<lambda>filteredSeeds.
     bind (filterSeedsForZonalShootControlPlanes filteredSeeds shoot) (\<lambda>filteredSeeds.
     bind (filterCandidates h shoot shootList filteredSeeds) (\<lambda>filteredSeeds.
     bind (applyStrategy h shoot filteredSeeds strategy) (\<lambda>filteredSeeds.
     getSeedWithLeastShootsDeployed filteredSeeds shootList)))))))"

definition determineSeed ::
  "'sel env \<Rightarrow> client \<Rightarrow> Shoot \<Rightarrow> string \<Rightarrow> Seed outcome \<times> call list" where
  "determineSeed h reader shoot strategy =
     (case ListSeeds reader of
        Inl err \<Rightarrow> (Fail (ErrClient err), [ListSeedsCall])
      | Inr seedList \<Rightarrow>
     (case ListShoots reader of
        Inl err \<Rightarrow> (Fail (ErrClient err), [ListSeedsCall, ListShootsCall])
      | Inr shootList \<Rightarrow>
     (case GetCloudProfile reader (CloudProfileName shoot) of
        Inl err \<Rightarrow>
          (Fail (ErrClient err),
           [ListSeedsCall, ListShootsCall, GetCloudProfileCall (CloudProfileName shoot)])
      | Inr cloudProfile \<Rightarrow>
          (determineSeed_stages h shoot seedList shootList cloudProfile strategy,
           [ListSeedsCall, ListShootsCall, GetCloudProfileCall (CloudProfileName shoot)]))))"

text \<open>What one reconcile did: the result for the work queue (\<open>Return ()\<close> is done,
  \<open>Fail\<close> is the retry with the error), the events it recorded and the calls it made on
  the client, both in their order.\<close>

record run =
  result :: "unit outcome"
  events :: "event list"
  calls :: "call list"

definition failedSchedulingEvent :: "Shoot \<Rightarrow> error \<Rightarrow> event" where
  "failedSchedulingEvent shoot err =
     \<lparr>involvedObject = shoot, eventType = EventTypeWarning,
      eventReason = ShootEventSchedulingFailed,
      eventMessage = FailedToSchedule (Name (shootMeta shoot)) err\<rparr>"

definition Reconcile :: "'sel env \<Rightarrow> Reconciler \<Rightarrow> string \<times> string \<Rightarrow> run" where
  "Reconcile h r request =
     (case GetShoot (Client r) request of
        Inl err \<Rightarrow>
          if IsNotFound err
          then \<lparr>result = Return (), events = [], calls = [GetShootCall request]\<rparr>
          else \<lparr>result = Fail (ErrRetrievingObject err), events = [],
                calls = [GetShootCall request]\<rparr>
      | Inr shoot \<Rightarrow>
          if SeedName shoot \<noteq> None
          then \<lparr>result = Return (), events = [], calls = [GetShootCall request]\<rparr>
          else if DeletionTimestamp (shootMeta shoot) \<noteq> None
          then \<lparr>result = Return (), events = [], calls = [GetShootCall request]\<rparr>
          else
            (case determineSeed h (Client r) shoot (Strategy (Config r)) of
               (Panic, reads) \<Rightarrow>
                 \<lparr>result = Panic, events = [], calls = GetShootCall request # reads\<rparr>
             | (Fail err, reads) \<Rightarrow>
                 \<lparr>result = Fail err, events = [failedSchedulingEvent shoot err],
                  calls = GetShootCall request # reads\<rparr>
             | (Return seed, reads) \<Rightarrow>
                 (let shoot = shoot\<lparr>SeedName := Some (Name (seedMeta seed))\<rparr>
                  in case UpdateBinding (Client r) shoot of
                       Some err \<Rightarrow>
                         \<lparr>result = Fail (ErrClient err),
                          events = [failedSchedulingEvent shoot (ErrClient err)],
                          calls = GetShootCall request # reads @ [UpdateBindingCall shoot]\<rparr>
                     | None \<Rightarrow>
                         \<lparr>result = Return (),
                          events = [\<lparr>involvedObject = shoot, eventType = EventTypeNormal,
                                     eventReason = ShootEventSchedulingSuccessful,
                                     eventMessage = ScheduledToSeed (Name (seedMeta seed))\<rparr>],
                          calls = GetShootCall request # reads @ [UpdateBindingCall shoot]\<rparr>)))"

section \<open>The conditions of the filter stages\<close>

text \<open>The conditions under which the loops of stages A to E append a Seed, collected: the
  Seed is usable, matches the selector of the CloudProfile and of the Shoot when there is
  one, matches the providers, has three zones when the Shoot asks for them, and passes the
  three checks of the eligibility stage.\<close>

definition passesFilters ::
  "'sel env \<Rightarrow> Shoot \<Rightarrow> Shoot list \<Rightarrow> CloudProfile \<Rightarrow> Seed \<Rightarrow> bool" where
  "passesFilters h shoot shootList cloudProfile seed \<longleftrightarrow>
     isUsableSeed seed
     \<and> (\<forall>sel. cloudProfileSeedSelector cloudProfile = Some sel \<longrightarrow>
            (\<exists>selector. LabelSelectorAsSelector h (LabelSelector sel) = Inr selector
                       \<and> Matches h selector (Labels (seedMeta seed))))
     \<and> (\<forall>sel. shootSeedSelector shoot = Some sel \<longrightarrow>
            (\<exists>selector. LabelSelectorAsSelector h (LabelSelector sel) = Inr selector
                       \<and> Matches h selector (Labels (seedMeta seed))))
     \<and> matchProvider (seedProviderType seed) (shootProviderType shoot)
          (case cloudProfileSeedSelector cloudProfile of
             None \<Rightarrow> [] | Some sel \<Rightarrow> ProviderTypes sel)
     \<and> (IsMultiZonalShootControlPlane shoot \<longrightarrow> 3 \<le> length (Zones seed))
     \<and> fst (networksAreDisjointed h seed shoot)
     \<and> TaintsAreTolerated h (Taints seed) (Tolerations shoot)
     \<and> (\<forall>K. Allocatable seed ResourceShoots = Some K \<longrightarrow>
            CalculateSeedUsage shootList (Name (seedMeta seed)) < K)"

section \<open>Scenarios\<close>

text \<open>The data of the end-to-end scenarios: a usable Seed with three zones and no taints,
  an unscheduled Shoot, a CloudProfile without selector, a client that answers from a fixed
  snapshot and accepts the binding, and small stand-ins for the outside functions.\<close>

definition scenarioConditions :: "Condition list" where
  "scenarioConditions =
     [\<lparr>Type = SeedBootstrapped, Status = ConditionTrue\<rparr>,
      \<lparr>Type = SeedGardenletReady, Status = ConditionTrue\<rparr>]"

definition scenarioSeed :: "string \<Rightarrow> string \<Rightarrow> string \<Rightarrow> Seed" where
  "scenarioSeed name provider region =
     \<lparr>seedMeta = \<lparr>Name = name, Namespace = [], Labels = Map.empty, DeletionTimestamp = None\<rparr>,
      Taints = [], Visible = True, seedProviderType = provider,
      seedProviderRegion = region, Zones = [''a'', ''b'', ''c''],
      Networks = \<lparr>seedNodes = None, seedPods = ''10.0.0.0/16'', seedServices = ''10.1.0.0/16'',
                  ShootDefaults = None\<rparr>,
      Backup = None, Conditions = scenarioConditions, Allocatable = Map.empty\<rparr>"

definition scenarioShoot :: "string \<Rightarrow> string \<Rightarrow> string \<Rightarrow> string option \<Rightarrow> Shoot" where
  "scenarioShoot name provider region seedName =
     \<lparr>shootMeta = \<lparr>Name = name, Namespace = ''garden-dev'', Labels = Map.empty,
                    DeletionTimestamp = None\<rparr>,
      CloudProfileName = ''profile'', Region = region, shootProviderType = provider,
      Networking = \<lparr>shootNodes = Some ''10.250.0.0/16'', shootPods = None,
                    shootServices = None\<rparr>,
      Tolerations = [], shootSeedSelector = None, Purpose = Some ''evaluation'',
      FailureToleranceType = None, SeedName = seedName\<rparr>"

definition scenarioProfile :: CloudProfile where
  "scenarioProfile =
     \<lparr>cloudProfileMeta = \<lparr>Name = ''profile'', Namespace = [], Labels = Map.empty,
                           DeletionTimestamp = None\<rparr>,
      cloudProfileSeedSelector = None\<rparr>"

definition scenarioEnv :: "LabelSelector env" where
  "scenarioEnv =
     \<lparr>distance = (\<lambda>a b. if a = b then 0 else 1),
      ValidateNetworkDisjointedness =
        (\<lambda>shootNodes' shootPods' shootServices' seedNodes' seedPods' seedServices'.
           if shootNodes' = Some seedPods'
           then [''shoot node network intersects with seed pod network''] else []),
      TaintsAreTolerated =
        (\<lambda>taints tolerations.
           list_all (\<lambda>taint. list_ex (\<lambda>t. tolerationKey t = taintKey taint) tolerations) taints),
      LabelSelectorAsSelector = Inr,
      Matches = (\<lambda>selector labels. True),
      SelectorString = (\<lambda>selector. []),
      rangeOrder = (\<lambda>errs. filter (\<lambda>k. k \<in> dom errs) [''seed-1'', ''seed-2''])\<rparr>"

text \<open>The same environment in a run where the runtime ranges over the map in the other
  order.\<close>

definition scenarioEnvReversed :: "LabelSelector env" where
  "scenarioEnvReversed =
     scenarioEnv\<lparr>rangeOrder := (\<lambda>errs. filter (\<lambda>k. k \<in> dom errs) [''seed-2'', ''seed-1''])\<rparr>"

text \<open>Scenario 4 of the spec: a Seed with a taint that the Shoot does not tolerate.\<close>

definition scenarioTaintedSeed :: "string \<Rightarrow> Seed" where
  "scenarioTaintedSeed name =
     scenarioSeed name ''aws'' ''eu-west-1''
       \<lparr>Taints := [\<lparr>taintKey = ''quarantine'', taintValue = None\<rparr>]\<rparr>"

definition scenarioClient :: "Shoot \<Rightarrow> Seed list \<Rightarrow> Shoot list \<Rightarrow> client" where
  "scenarioClient shoot seeds shoots =
     \<lparr>GetShoot = (\<lambda>key. if key = (Namespace (shootMeta shoot), Name (shootMeta shoot))
                         then Inr shoot else Inl NotFound),
      ListSeeds = Inr seeds,
      ListShoots = Inr shoots,
      GetCloudProfile = (\<lambda>name. if name = ''profile'' then Inr scenarioProfile
                                 else Inl NotFound),
      UpdateBinding = (\<lambda>shoot. None)\<rparr>"

definition scenarioReconciler :: "string \<Rightarrow> Shoot \<Rightarrow> Seed list \<Rightarrow> Shoot list \<Rightarrow> Reconciler" where
  "scenarioReconciler strategy shoot seeds shoots =
     \<lparr>Client = scenarioClient shoot seeds shoots, Config = \<lparr>Strategy = strategy\<rparr>\<rparr>"

section \<open>Properties of the loops\<close>

lemma Min_insert_absorb_low:
  fixes d m :: int
  assumes "finite S" "d < m"
  shows "Min (insert m (insert d S)) = Min (insert d S)"
proof -
  have "Min (insert m (insert d S)) = min m (Min (insert d S))"
    using assms(1) by (intro Min_insert) simp_all
  moreover have "Min (insert d S) \<le> d" using assms(1) by (intro Min_le) simp_all
  ultimately show ?thesis using assms(2) by simp
qed

lemma Min_insert_absorb_high:
  fixes d m :: int
  assumes "finite S" "m \<le> d"
  shows "Min (insert m (insert d S)) = Min (insert m S)"
proof -
  have "insert m (insert d S) = insert d (insert m S)" by (rule insert_commute)
  then have "Min (insert m (insert d S)) = min d (Min (insert m S))"
    using assms(1)
    by (simp only: Min_insert[of "insert m S" d, OF _ insert_not_empty] finite_insert)
  moreover have "Min (insert m S) \<le> m" using assms(1) by (intro Min_le) simp_all
  ultimately show ?thesis using assms(2) by simp
qed

text \<open>The invariant of the minimal distance loop: \<open>minDistance\<close> is the least of its start
  value and the distances seen, \<open>candidates\<close> are the Seeds seen at that distance, after
  the start candidates when the start value was never undercut.\<close>

lemma minimalDistance_loop_inv:
  "minimalDistance_loop h shoot seeds (m, cands) =
     (Min (insert m (seedDistance h shoot ` set seeds)),
      (if Min (insert m (seedDistance h shoot ` set seeds)) = m then cands else [])
        @ filter (\<lambda>s. seedDistance h shoot s = Min (insert m (seedDistance h shoot ` set seeds)))
            seeds)"
proof (induction seeds arbitrary: m cands)
  case Nil
  show ?case by simp
next
  case (Cons seed seeds)
  define d where "d = seedDistance h shoot seed"
  define S where "S = seedDistance h shoot ` set seeds"
  define M where "M = Min (insert m (insert d S))"
  have fin: "finite S" by (simp add: S_def)
  have img: "seedDistance h shoot ` set (seed # seeds) = insert d S"
    by (simp add: d_def S_def)
  have M_le_m: "M \<le> m" unfolding M_def using fin by (intro Min_le) simp_all
  have M_le_d: "M \<le> d" unfolding M_def using fin by (intro Min_le) simp_all
  have goal_eq: "?case \<longleftrightarrow>
      minimalDistance_loop h shoot (seed # seeds) (m, cands) =
        (M, (if M = m then cands else [])
              @ filter (\<lambda>s. seedDistance h shoot s = M) (seed # seeds))"
    unfolding img M_def by simp
  have filt: "filter (\<lambda>s. seedDistance h shoot s = M) (seed # seeds) =
      (if d = M then [seed] else []) @ filter (\<lambda>s. seedDistance h shoot s = M) seeds"
    by (simp add: d_def)
  consider (eq) "d = m" | (less) "d < m" | (greater) "m < d" by linarith
  then have "minimalDistance_loop h shoot (seed # seeds) (m, cands) =
        (M, (if M = m then cands else [])
              @ filter (\<lambda>s. seedDistance h shoot s = M) (seed # seeds))"
  proof cases
    case eq
    have M': "Min (insert m S) = M" unfolding M_def using eq by simp
    have step: "minimalDistance_loop h shoot (seed # seeds) (m, cands) =
        minimalDistance_loop h shoot seeds (m, cands @ [seed])"
      using eq by (simp add: d_def)
    have "minimalDistance_loop h shoot seeds (m, cands @ [seed]) =
        (M, (if M = m then cands @ [seed] else [])
              @ filter (\<lambda>s. seedDistance h shoot s = M) seeds)"
      using Cons.IH[of m "cands @ [seed]"] unfolding S_def[symmetric] M' .
    then show ?thesis unfolding step filt using eq by simp
  next
    case less
    have M': "Min (insert d S) = M" unfolding M_def
      using Min_insert_absorb_low[OF fin less] by simp
    have step: "minimalDistance_loop h shoot (seed # seeds) (m, cands) =
        minimalDistance_loop h shoot seeds (d, [seed])"
      using less by (simp add: d_def)
    have "minimalDistance_loop h shoot seeds (d, [seed]) =
        (M, (if M = d then [seed] else [])
              @ filter (\<lambda>s. seedDistance h shoot s = M) seeds)"
      using Cons.IH[of d "[seed]"] unfolding S_def[symmetric] M' .
    moreover have "M \<noteq> m" using M_le_d less by simp
    ultimately show ?thesis unfolding step filt by auto
  next
    case greater
    have M': "Min (insert m S) = M" unfolding M_def
      using Min_insert_absorb_high[OF fin, of m d] greater by simp
    have step: "minimalDistance_loop h shoot (seed # seeds) (m, cands) =
        minimalDistance_loop h shoot seeds (m, cands)"
      using greater by (simp add: d_def)
    have "minimalDistance_loop h shoot seeds (m, cands) =
        (M, (if M = m then cands else [])
              @ filter (\<lambda>s. seedDistance h shoot s = M) seeds)"
      using Cons.IH[of m cands] unfolding S_def[symmetric] M' .
    moreover have "d \<noteq> M" using M_le_m greater by simp
    ultimately show ?thesis unfolding step filt by simp
  qed
  then show ?case unfolding goal_eq .
qed

text \<open>The invariant of the loop of \<open>getSeedWithLeastShootsDeployed\<close>: \<open>min\<close> is the least
  count seen, \<open>bestCandidate\<close> the first Seed seen with that count.\<close>

lemma leastShoots_loop_inv:
  "leastShoots_loop u xs (b, Some m) =
     (if Min (insert m ((\<lambda>s. u (Name (seedMeta s))) ` set xs)) = m then b
      else hd (filter (\<lambda>s. u (Name (seedMeta s))
                 = Min (insert m ((\<lambda>s. u (Name (seedMeta s))) ` set xs))) xs),
      Some (Min (insert m ((\<lambda>s. u (Name (seedMeta s))) ` set xs))))"
proof (induction xs arbitrary: b m)
  case Nil
  show ?case by simp
next
  case (Cons x xs)
  let ?uu = "\<lambda>s::Seed. u (Name (seedMeta s))"
  define d where "d = ?uu x"
  define S where "S = ?uu ` set xs"
  define M where "M = Min (insert m (insert d S))"
  have fin: "finite S" by (simp add: S_def)
  have img: "?uu ` set (x # xs) = insert d S" by (simp add: d_def S_def)
  have M_le_m: "M \<le> m" unfolding M_def using fin by (intro Min_le) simp_all
  have M_le_d: "M \<le> d" unfolding M_def using fin by (intro Min_le) simp_all
  have IH: "leastShoots_loop u xs (b', Some m') =
     (if Min (insert m' S) = m' then b' else hd (filter (\<lambda>s. ?uu s = Min (insert m' S)) xs),
      Some (Min (insert m' S)))" for b' m'
    using Cons.IH[of b' m'] unfolding S_def[symmetric] .
  have goal_eq: "?case \<longleftrightarrow>
      leastShoots_loop u (x # xs) (b, Some m) =
        (if M = m then b else hd (filter (\<lambda>s. ?uu s = M) (x # xs)), Some M)"
    unfolding img M_def by simp
  have filt: "filter (\<lambda>s. ?uu s = M) (x # xs) =
      (if d = M then [x] else []) @ filter (\<lambda>s. ?uu s = M) xs"
    by (simp add: d_def)
  have "leastShoots_loop u (x # xs) (b, Some m) =
        (if M = m then b else hd (filter (\<lambda>s. ?uu s = M) (x # xs)), Some M)"
  proof (cases "d < m")
    case True
    have M': "Min (insert d S) = M" unfolding M_def
      using Min_insert_absorb_low[OF fin True] by simp
    have step: "leastShoots_loop u (x # xs) (b, Some m) = leastShoots_loop u xs (x, Some d)"
      using True by (simp add: d_def)
    have "M \<noteq> m" using M_le_d True by simp
    then show ?thesis unfolding step IH M' filt by simp
  next
    case False
    then have le: "m \<le> d" by simp
    have M': "Min (insert m S) = M" unfolding M_def
      using Min_insert_absorb_high[OF fin le] by simp
    have step: "leastShoots_loop u (x # xs) (b, Some m) = leastShoots_loop u xs (b, Some m)"
      using False by (simp add: d_def)
    have "M \<noteq> m \<Longrightarrow> d \<noteq> M" using M_le_m le by simp
    then show ?thesis unfolding step IH M' filt by auto
  qed
  then show ?case unfolding goal_eq .
qed

lemma leastShoots_loop_first:
  assumes "xs \<noteq> []"
  shows "fst (leastShoots_loop u xs (z, None)) =
     hd (filter (\<lambda>s. u (Name (seedMeta s)) = Min ((\<lambda>s. u (Name (seedMeta s))) ` set xs)) xs)"
proof -
  obtain x rest where xs: "xs = x # rest" using assms by (cases xs) auto
  let ?uu = "\<lambda>s::Seed. u (Name (seedMeta s))"
  define M where "M = Min (insert (?uu x) (?uu ` set rest))"
  have step: "leastShoots_loop u (x # rest) (z, None) = leastShoots_loop u rest (x, Some (?uu x))"
    by simp
  have "fst (leastShoots_loop u rest (x, Some (?uu x))) =
      (if M = ?uu x then x else hd (filter (\<lambda>s. ?uu s = M) rest))"
    unfolding leastShoots_loop_inv M_def by simp
  also have "\<dots> = hd (filter (\<lambda>s. ?uu s = M) (x # rest))" by auto
  finally show ?thesis unfolding xs step M_def by simp
qed

lemma hd_filter_split:
  assumes "\<exists>x\<in>set xs. P x"
  shows "\<exists>pre post. xs = pre @ hd (filter P xs) # post \<and> P (hd (filter P xs))
           \<and> (\<forall>t\<in>set pre. \<not> P t)"
proof -
  from split_list_first_prop[OF assms]
  obtain ys x zs where s: "xs = ys @ x # zs" "P x" "\<forall>y\<in>set ys. \<not> P y" by blast
  have "filter P ys = []" using s(3) by (simp add: filter_empty_conv)
  then have "hd (filter P xs) = x" using s(1,2) by simp
  then show ?thesis using s by blast
qed

section \<open>The tie-break\<close>

text \<open>
  Claim C3. For a non-empty list of candidates, \<open>getSeedWithLeastShootsDeployed\<close> returns a
  Seed of the list such that no Seed of the list has fewer Shoots bound to it, counted by
  \<open>seedName\<close> over the Shoot snapshot, and every Seed that stands before it in the list has
  strictly more: among the Seeds with the least count, the first in list order is chosen.
\<close>

theorem tie_break_least_shoots:
  assumes "seedList \<noteq> []"
  shows "\<exists>best pre post.
           getSeedWithLeastShootsDeployed seedList shootList = Return best
         \<and> seedList = pre @ best # post
         \<and> (\<forall>t\<in>set seedList. CalculateSeedUsage shootList (Name (seedMeta best))
                                 \<le> CalculateSeedUsage shootList (Name (seedMeta t)))
         \<and> (\<forall>t\<in>set pre. CalculateSeedUsage shootList (Name (seedMeta best))
                             < CalculateSeedUsage shootList (Name (seedMeta t)))"
proof -
  define uu where "uu = (\<lambda>s::Seed. CalculateSeedUsage shootList (Name (seedMeta s)))"
  define M where "M = Min (uu ` set seedList)"
  define best where "best = hd (filter (\<lambda>s. uu s = M) seedList)"
  have ret: "getSeedWithLeastShootsDeployed seedList shootList = Return best"
    unfolding getSeedWithLeastShootsDeployed_def best_def M_def uu_def
    using leastShoots_loop_first[OF assms] by simp
  have "M \<in> uu ` set seedList" unfolding M_def using assms by (intro Min_in) simp_all
  then have ex: "\<exists>x\<in>set seedList. uu x = M" by auto
  from hd_filter_split[OF ex]
  obtain pre post where sp: "seedList = pre @ best # post" "uu best = M"
      "\<forall>t\<in>set pre. uu t \<noteq> M" unfolding best_def by blast
  have low: "M \<le> uu t" if "t \<in> set seedList" for t
    unfolding M_def using that by (intro Min_le) simp_all
  have "\<forall>t\<in>set seedList. uu best \<le> uu t" using low sp(2) by simp
  moreover have "\<forall>t\<in>set pre. uu best < uu t"
  proof
    fix t assume t: "t \<in> set pre"
    then have "t \<in> set seedList" using sp(1) by simp
    from low[OF this] sp(3) t sp(2) show "uu best < uu t" by fastforce
  qed
  ultimately show ?thesis using ret sp(1) unfolding uu_def by blast
qed

theorem tie_break_least_shoots_witness:
  "[scenarioSeed ''seed-1'' ''aws'' ''eu-west-1'', scenarioSeed ''seed-2'' ''aws'' ''eu-west-1''] \<noteq> []
   \<and> (\<exists>best pre post.
           getSeedWithLeastShootsDeployed
             [scenarioSeed ''seed-1'' ''aws'' ''eu-west-1'',
              scenarioSeed ''seed-2'' ''aws'' ''eu-west-1'']
             [scenarioShoot ''x'' ''aws'' ''eu-west-1'' (Some ''seed-1'')] = Return best
         \<and> [scenarioSeed ''seed-1'' ''aws'' ''eu-west-1'',
            scenarioSeed ''seed-2'' ''aws'' ''eu-west-1''] = pre @ best # post
         \<and> (\<forall>t\<in>set [scenarioSeed ''seed-1'' ''aws'' ''eu-west-1'',
                      scenarioSeed ''seed-2'' ''aws'' ''eu-west-1''].
               CalculateSeedUsage [scenarioShoot ''x'' ''aws'' ''eu-west-1'' (Some ''seed-1'')]
                 (Name (seedMeta best))
               \<le> CalculateSeedUsage [scenarioShoot ''x'' ''aws'' ''eu-west-1'' (Some ''seed-1'')]
                   (Name (seedMeta t)))
         \<and> (\<forall>t\<in>set pre.
               CalculateSeedUsage [scenarioShoot ''x'' ''aws'' ''eu-west-1'' (Some ''seed-1'')]
                 (Name (seedMeta best))
               < CalculateSeedUsage [scenarioShoot ''x'' ''aws'' ''eu-west-1'' (Some ''seed-1'')]
                   (Name (seedMeta t))))
   \<and> getSeedWithLeastShootsDeployed
        [scenarioSeed ''seed-1'' ''aws'' ''eu-west-1'',
         scenarioSeed ''seed-2'' ''aws'' ''eu-west-1'']
        [scenarioShoot ''x'' ''aws'' ''eu-west-1'' (Some ''seed-1'')]
      = Return (scenarioSeed ''seed-2'' ''aws'' ''eu-west-1'')"
proof -
  have ne: "[scenarioSeed ''seed-1'' ''aws'' ''eu-west-1'',
             scenarioSeed ''seed-2'' ''aws'' ''eu-west-1''] \<noteq> []" by simp
  have run: "getSeedWithLeastShootsDeployed
        [scenarioSeed ''seed-1'' ''aws'' ''eu-west-1'',
         scenarioSeed ''seed-2'' ''aws'' ''eu-west-1'']
        [scenarioShoot ''x'' ''aws'' ''eu-west-1'' (Some ''seed-1'')]
      = Return (scenarioSeed ''seed-2'' ''aws'' ''eu-west-1'')"
    by (simp add: getSeedWithLeastShootsDeployed_def CalculateSeedUsage_def scenarioSeed_def
          scenarioShoot_def)
  from tie_break_least_shoots[OF ne,
      of "[scenarioShoot ''x'' ''aws'' ''eu-west-1'' (Some ''seed-1'')]"] ne run
  show ?thesis by blast
qed

section \<open>The eligibility stage\<close>

text \<open>The candidates of the loop of \<open>filterCandidates\<close> are the Seeds that pass its three
  checks, in the order of the input.\<close>

lemma filterCandidates_loop_fst:
  "fst (filterCandidates_loop h shoot u xs (c, e)) =
     c @ filter (\<lambda>seed. fst (networksAreDisjointed h seed shoot)
                   \<and> TaintsAreTolerated h (Taints seed) (Tolerations shoot)
                   \<and> (case Allocatable seed ResourceShoots of
                        None \<Rightarrow> True
                      | Some k \<Rightarrow> u (Name (seedMeta seed)) < k)) xs"
proof (induction xs arbitrary: c e)
  case Nil
  show ?case by simp
next
  case (Cons x xs)
  obtain dj err where nd: "networksAreDisjointed h x shoot = (dj, err)"
    by (cases "networksAreDisjointed h x shoot")
  show ?case
    by (cases "Allocatable x ResourceShoots") (simp_all add: nd Cons.IH not_le)
qed

text \<open>
  Claim C7. A Seed of the input is kept by the eligibility stage exactly when its networks
  are disjoint from the Shoot's, its taints are tolerated, and the capacity check passes.
  The capacity check rejects a Seed that publishes \<open>allocatable[shoots] = K\<close> exactly when
  the number of Shoots bound to it is at least \<open>K\<close>; it never rejects a Seed that does not
  publish \<open>allocatable[shoots]\<close>.
\<close>

theorem capacity_rejection:
  assumes "seed \<in> set seedList"
  shows "(\<exists>candidates. filterCandidates h shoot shootList seedList = Return candidates
            \<and> seed \<in> set candidates)
         \<longleftrightarrow> fst (networksAreDisjointed h seed shoot)
           \<and> TaintsAreTolerated h (Taints seed) (Tolerations shoot)
           \<and> (case Allocatable seed ResourceShoots of
                None \<Rightarrow> True
              | Some K \<Rightarrow> CalculateSeedUsage shootList (Name (seedMeta seed)) < K)"
proof -
  obtain c e where run: "filterCandidates_loop h shoot (CalculateSeedUsage shootList) seedList
      ([], Map.empty) = (c, e)"
    by (cases "filterCandidates_loop h shoot (CalculateSeedUsage shootList) seedList
      ([], Map.empty)")
  have c: "c = filter (\<lambda>seed. fst (networksAreDisjointed h seed shoot)
                   \<and> TaintsAreTolerated h (Taints seed) (Tolerations shoot)
                   \<and> (case Allocatable seed ResourceShoots of
                        None \<Rightarrow> True
                      | Some k \<Rightarrow> CalculateSeedUsage shootList (Name (seedMeta seed)) < k))
                seedList"
    using filterCandidates_loop_fst[of h shoot "CalculateSeedUsage shootList" seedList "[]"
        Map.empty] run by simp
  have "(\<exists>candidates. filterCandidates h shoot shootList seedList = Return candidates
            \<and> seed \<in> set candidates) \<longleftrightarrow> seed \<in> set c"
    unfolding filterCandidates_def run by auto
  then show ?thesis unfolding c using assms by simp
qed

theorem capacity_rejection_witness:
  "scenarioSeed ''seed-1'' ''aws'' ''eu-west-1''\<lparr>Allocatable := [ResourceShoots \<mapsto> 2]\<rparr>
     \<in> set [scenarioSeed ''seed-1'' ''aws'' ''eu-west-1''\<lparr>Allocatable := [ResourceShoots \<mapsto> 2]\<rparr>,
            scenarioSeed ''seed-2'' ''aws'' ''eu-west-1'']
   \<and> \<not> (\<exists>candidates.
          filterCandidates scenarioEnv (scenarioShoot ''x'' ''aws'' ''eu-west-1'' None)
            [scenarioShoot ''y'' ''aws'' ''eu-west-1'' (Some ''seed-1''),
             scenarioShoot ''z'' ''aws'' ''eu-west-1'' (Some ''seed-1'')]
            [scenarioSeed ''seed-1'' ''aws'' ''eu-west-1''\<lparr>Allocatable := [ResourceShoots \<mapsto> 2]\<rparr>,
             scenarioSeed ''seed-2'' ''aws'' ''eu-west-1''] = Return candidates
          \<and> scenarioSeed ''seed-1'' ''aws'' ''eu-west-1''\<lparr>Allocatable := [ResourceShoots \<mapsto> 2]\<rparr>
              \<in> set candidates)
   \<and> (\<exists>candidates.
          filterCandidates scenarioEnv (scenarioShoot ''x'' ''aws'' ''eu-west-1'' None)
            [scenarioShoot ''y'' ''aws'' ''eu-west-1'' (Some ''seed-1''),
             scenarioShoot ''z'' ''aws'' ''eu-west-1'' (Some ''seed-1'')]
            [scenarioSeed ''seed-1'' ''aws'' ''eu-west-1''\<lparr>Allocatable := [ResourceShoots \<mapsto> 2]\<rparr>,
             scenarioSeed ''seed-2'' ''aws'' ''eu-west-1''] = Return candidates
          \<and> scenarioSeed ''seed-2'' ''aws'' ''eu-west-1'' \<in> set candidates)"
proof -
  let ?s1 = "scenarioSeed ''seed-1'' ''aws'' ''eu-west-1''\<lparr>Allocatable := [ResourceShoots \<mapsto> 2]\<rparr>"
  let ?s2 = "scenarioSeed ''seed-2'' ''aws'' ''eu-west-1''"
  let ?shoot = "scenarioShoot ''x'' ''aws'' ''eu-west-1'' None"
  let ?shoots = "[scenarioShoot ''y'' ''aws'' ''eu-west-1'' (Some ''seed-1''),
             scenarioShoot ''z'' ''aws'' ''eu-west-1'' (Some ''seed-1'')]"
  have in1: "?s1 \<in> set [?s1, ?s2]" by simp
  have in2: "?s2 \<in> set [?s1, ?s2]" by simp
  have full: "\<not> (fst (networksAreDisjointed scenarioEnv ?s1 ?shoot)
           \<and> TaintsAreTolerated scenarioEnv (Taints ?s1) (Tolerations ?shoot)
           \<and> (case Allocatable ?s1 ResourceShoots of
                None \<Rightarrow> True
              | Some K \<Rightarrow> CalculateSeedUsage ?shoots (Name (seedMeta ?s1)) < K))"
    by (simp add: scenarioSeed_def scenarioShoot_def CalculateSeedUsage_def)
  have free: "fst (networksAreDisjointed scenarioEnv ?s2 ?shoot)
           \<and> TaintsAreTolerated scenarioEnv (Taints ?s2) (Tolerations ?shoot)
           \<and> (case Allocatable ?s2 ResourceShoots of
                None \<Rightarrow> True
              | Some K \<Rightarrow> CalculateSeedUsage ?shoots (Name (seedMeta ?s2)) < K)"
    by (simp add: scenarioSeed_def scenarioShoot_def scenarioEnv_def
          networksAreDisjointed_def)
  show ?thesis
    using capacity_rejection[OF in1, of scenarioEnv ?shoot ?shoots]
          capacity_rejection[OF in2, of scenarioEnv ?shoot ?shoots] in1 full free
    by blast
qed

section \<open>The strategy stage\<close>

text \<open>
  Claim C5. For a Shoot of purpose \<open>testing\<close> the strategy stage keeps exactly the Seeds of
  the Shoot's provider type, whatever their region and whatever the strategy; for any other
  Shoot under the strategy \<open>SameRegion\<close> it keeps exactly the Seeds of the Shoot's provider
  type and region. In both cases the stage fails when no Seed is kept.
\<close>

theorem strategy_testing_and_same_region:
  "(Purpose shoot = Some ShootPurposeTesting \<longrightarrow>
      applyStrategy h shoot seedList strategy =
        (let survivors =
               filter (\<lambda>seed. seedProviderType seed = shootProviderType shoot) seedList
         in if survivors = []
            then Fail (ErrNoMatchingCandidate (CloudProfileName shoot) (Region shoot) strategy)
            else Return survivors))
   \<and> (Purpose shoot \<noteq> Some ShootPurposeTesting \<longrightarrow>
      applyStrategy h shoot seedList SameRegion =
        (let survivors =
               filter (\<lambda>seed. seedProviderType seed = shootProviderType shoot
                              \<and> seedProviderRegion seed = Region shoot) seedList
         in if survivors = []
            then Fail (ErrNoMatchingCandidate (CloudProfileName shoot) (Region shoot) SameRegion)
            else Return survivors))"
  by (cases "Purpose shoot")
     (simp_all add: applyStrategy_def determineCandidatesOfSameProvider_def
        determineCandidatesWithSameRegionStrategy_def Let_def)

theorem strategy_testing_and_same_region_witness:
  "Purpose (scenarioShoot ''x'' ''aws'' ''eu-west-1'' None\<lparr>Purpose := Some ShootPurposeTesting\<rparr>)
     = Some ShootPurposeTesting
   \<and> applyStrategy scenarioEnv
        (scenarioShoot ''x'' ''aws'' ''eu-west-1'' None\<lparr>Purpose := Some ShootPurposeTesting\<rparr>)
        [scenarioSeed ''seed-1'' ''aws'' ''eu-west-1'',
         scenarioSeed ''seed-2'' ''aws'' ''us-east-1'',
         scenarioSeed ''seed-3'' ''gcp'' ''eu-west-1''] MinimalDistance
      = Return [scenarioSeed ''seed-1'' ''aws'' ''eu-west-1'',
                scenarioSeed ''seed-2'' ''aws'' ''us-east-1'']
   \<and> Purpose (scenarioShoot ''x'' ''aws'' ''eu-west-1'' None) \<noteq> Some ShootPurposeTesting
   \<and> applyStrategy scenarioEnv (scenarioShoot ''x'' ''aws'' ''eu-west-1'' None)
        [scenarioSeed ''seed-1'' ''aws'' ''eu-west-1'',
         scenarioSeed ''seed-2'' ''aws'' ''us-east-1'',
         scenarioSeed ''seed-3'' ''gcp'' ''eu-west-1''] SameRegion
      = Return [scenarioSeed ''seed-1'' ''aws'' ''eu-west-1'']"
proof -
  let ?seeds = "[scenarioSeed ''seed-1'' ''aws'' ''eu-west-1'',
         scenarioSeed ''seed-2'' ''aws'' ''us-east-1'',
         scenarioSeed ''seed-3'' ''gcp'' ''eu-west-1'']"
  let ?t = "scenarioShoot ''x'' ''aws'' ''eu-west-1'' None\<lparr>Purpose := Some ShootPurposeTesting\<rparr>"
  let ?e = "scenarioShoot ''x'' ''aws'' ''eu-west-1'' None"
  have pt: "Purpose ?t = Some ShootPurposeTesting" by simp
  have pe: "Purpose ?e \<noteq> Some ShootPurposeTesting"
    by (simp add: scenarioShoot_def ShootPurposeTesting_def)
  have a: "applyStrategy scenarioEnv ?t ?seeds MinimalDistance
      = Return [scenarioSeed ''seed-1'' ''aws'' ''eu-west-1'',
                scenarioSeed ''seed-2'' ''aws'' ''us-east-1'']"
    using strategy_testing_and_same_region[of ?t scenarioEnv ?seeds MinimalDistance] pt
    by (simp add: scenarioSeed_def scenarioShoot_def)
  have b: "applyStrategy scenarioEnv ?e ?seeds SameRegion
      = Return [scenarioSeed ''seed-1'' ''aws'' ''eu-west-1'']"
    using strategy_testing_and_same_region[of ?e scenarioEnv ?seeds MinimalDistance] pe
    by (simp add: scenarioSeed_def scenarioShoot_def)
  from pt a pe b show ?thesis by blast
qed

text \<open>
  Claim C6. Under the strategy \<open>MinimalDistance\<close>, for a Shoot whose purpose is not
  \<open>testing\<close>, the stage keeps exactly the Seeds whose distance (the \<open>distance\<close> of the two
  regions, plus 2 when the provider types differ) is the least of 1000 and the distances
  of all Seeds of the input: no kept Seed has a distance above 1000, and the stage fails
  when no Seed is kept.
\<close>

theorem minimal_distance_strategy:
  "(let eff = (\<lambda>seed::Seed. distance h (seedProviderRegion seed) (Region shoot)
                       + (if seedProviderType seed \<noteq> shootProviderType shoot then 2 else 0));
        survivors = filter (\<lambda>seed. eff seed = Min (insert 1000 (eff ` set seedList))) seedList
    in determineCandidatesWithMinimalDistanceStrategy h seedList shoot = survivors
       \<and> (\<forall>seed\<in>set survivors. eff seed \<le> 1000)
       \<and> (Purpose shoot \<noteq> Some ShootPurposeTesting \<longrightarrow>
            applyStrategy h shoot seedList MinimalDistance =
              (if survivors = []
               then Fail (ErrNoMatchingCandidate (CloudProfileName shoot) (Region shoot)
                            MinimalDistance)
               else Return survivors)))"
proof -
  define eff where "eff = (\<lambda>seed::Seed. distance h (seedProviderRegion seed) (Region shoot)
                       + (if seedProviderType seed \<noteq> shootProviderType shoot then 2 else 0))"
  define survivors where
    "survivors = filter (\<lambda>seed. eff seed = Min (insert 1000 (eff ` set seedList))) seedList"
  have eff: "seedDistance h shoot = eff"
    by (rule ext) (auto simp: seedDistance_def eff_def Let_def)
  have cands: "determineCandidatesWithMinimalDistanceStrategy h seedList shoot = survivors"
    unfolding determineCandidatesWithMinimalDistanceStrategy_def minimalDistance_loop_inv eff
      survivors_def by simp
  have "Min (insert 1000 (eff ` set seedList)) \<le> 1000" by (intro Min_le) simp_all
  then have bound: "\<forall>seed\<in>set survivors. eff seed \<le> 1000" unfolding survivors_def by simp
  have neq: "MinimalDistance \<noteq> SameRegion" by (simp add: MinimalDistance_def SameRegion_def)
  have strat: "Purpose shoot \<noteq> Some ShootPurposeTesting \<longrightarrow>
            applyStrategy h shoot seedList MinimalDistance =
              (if survivors = []
               then Fail (ErrNoMatchingCandidate (CloudProfileName shoot) (Region shoot)
                            MinimalDistance)
               else Return survivors)"
    by (cases "Purpose shoot") (simp_all add: applyStrategy_def cands neq)
  show ?thesis
    using cands bound strat unfolding Let_def eff_def[symmetric] survivors_def[symmetric]
    by blast
qed

theorem minimal_distance_strategy_witness:
  "Purpose (scenarioShoot ''x'' ''aws'' ''eu-west-1'' None) \<noteq> Some ShootPurposeTesting
   \<and> applyStrategy scenarioEnv (scenarioShoot ''x'' ''aws'' ''eu-west-1'' None)
        [scenarioSeed ''seed-1'' ''aws'' ''us-east-1'',
         scenarioSeed ''seed-2'' ''gcp'' ''eu-west-1'',
         scenarioSeed ''seed-3'' ''aws'' ''us-west-2''] MinimalDistance
      = Return [scenarioSeed ''seed-1'' ''aws'' ''us-east-1'',
                scenarioSeed ''seed-3'' ''aws'' ''us-west-2'']"
proof -
  let ?seeds = "[scenarioSeed ''seed-1'' ''aws'' ''us-east-1'',
         scenarioSeed ''seed-2'' ''gcp'' ''eu-west-1'',
         scenarioSeed ''seed-3'' ''aws'' ''us-west-2'']"
  let ?e = "scenarioShoot ''x'' ''aws'' ''eu-west-1'' None"
  have pe: "Purpose ?e \<noteq> Some ShootPurposeTesting"
    by (simp add: scenarioShoot_def ShootPurposeTesting_def)
  have "applyStrategy scenarioEnv ?e ?seeds MinimalDistance
      = Return [scenarioSeed ''seed-1'' ''aws'' ''us-east-1'',
                scenarioSeed ''seed-3'' ''aws'' ''us-west-2'']"
    using minimal_distance_strategy[of scenarioEnv ?e ?seeds] pe
    by (simp add: Let_def scenarioSeed_def scenarioShoot_def scenarioEnv_def)
  with pe show ?thesis by blast
qed

section \<open>The stages, when they succeed\<close>

text \<open>A stage that returns a list returns the Seeds of its input that satisfy its
  condition, in their order.\<close>

lemma bind_Return_iff: "bind m f = Return y \<longleftrightarrow> (\<exists>x. m = Return x \<and> f x = Return y)"
  by (cases m) auto

lemma filterUsableSeeds_Return:
  "filterUsableSeeds xs = Return ys \<Longrightarrow> ys = filter isUsableSeed xs"
  by (auto simp: filterUsableSeeds_def Let_def split: if_splits)

lemma filterSeedsMatchingLabelSelector_Return:
  "filterSeedsMatchingLabelSelector h xs seedSelector kind = Return ys \<Longrightarrow>
     ys = filter (\<lambda>seed. \<forall>sel. seedSelector = Some sel \<longrightarrow>
            (\<exists>selector. LabelSelectorAsSelector h (LabelSelector sel) = Inr selector
                       \<and> Matches h selector (Labels (seedMeta seed)))) xs"
  by (auto simp: filterSeedsMatchingLabelSelector_def Let_def
           split: option.splits sum.splits if_splits)

lemma filterSeedsMatchingProviders_Return:
  "filterSeedsMatchingProviders cloudProfile shoot xs = Return ys \<Longrightarrow>
     ys = filter (\<lambda>seed. matchProvider (seedProviderType seed) (shootProviderType shoot)
          (case cloudProfileSeedSelector cloudProfile of
             None \<Rightarrow> [] | Some sel \<Rightarrow> ProviderTypes sel)) xs"
  by (auto simp: filterSeedsMatchingProviders_def Let_def split: if_splits)

lemma filterSeedsForZonalShootControlPlanes_Return:
  "filterSeedsForZonalShootControlPlanes xs shoot = Return ys \<Longrightarrow>
     ys = filter (\<lambda>seed. IsMultiZonalShootControlPlane shoot \<longrightarrow> 3 \<le> length (Zones seed)) xs"
  by (auto simp: filterSeedsForZonalShootControlPlanes_def Let_def split: if_splits)

lemma filterCandidates_Return:
  "filterCandidates h shoot shootList xs = Return ys \<Longrightarrow>
     ys = filter (\<lambda>seed. fst (networksAreDisjointed h seed shoot)
                   \<and> TaintsAreTolerated h (Taints seed) (Tolerations shoot)
                   \<and> (\<forall>K. Allocatable seed ResourceShoots = Some K \<longrightarrow>
                          CalculateSeedUsage shootList (Name (seedMeta seed)) < K)) xs"
proof -
  assume a: "filterCandidates h shoot shootList xs = Return ys"
  obtain c e where run: "filterCandidates_loop h shoot (CalculateSeedUsage shootList) xs
      ([], Map.empty) = (c, e)"
    by (cases "filterCandidates_loop h shoot (CalculateSeedUsage shootList) xs
      ([], Map.empty)")
  have "ys = c" using a unfolding filterCandidates_def run by (simp split: if_splits)
  moreover have "c = fst (filterCandidates_loop h shoot (CalculateSeedUsage shootList) xs
      ([], Map.empty))" using run by simp
  ultimately have "ys = filter (\<lambda>seed. fst (networksAreDisjointed h seed shoot)
                   \<and> TaintsAreTolerated h (Taints seed) (Tolerations shoot)
                   \<and> (case Allocatable seed ResourceShoots of
                        None \<Rightarrow> True
                      | Some k \<Rightarrow> CalculateSeedUsage shootList (Name (seedMeta seed)) < k)) xs"
    unfolding filterCandidates_loop_fst by simp
  also have "\<dots> = filter (\<lambda>seed. fst (networksAreDisjointed h seed shoot)
                   \<and> TaintsAreTolerated h (Taints seed) (Tolerations shoot)
                   \<and> (\<forall>K. Allocatable seed ResourceShoots = Some K \<longrightarrow>
                          CalculateSeedUsage shootList (Name (seedMeta seed)) < K)) xs"
    by (intro filter_cong refl) (simp split: option.splits)
  finally show ?thesis .
qed

lemma applyStrategy_Return:
  assumes "applyStrategy h shoot E strategy = Return cands" "s \<in> set cands"
  shows "s \<in> set E
     \<and> (Purpose shoot = Some ShootPurposeTesting \<longrightarrow>
          seedProviderType s = shootProviderType shoot)
     \<and> (Purpose shoot \<noteq> Some ShootPurposeTesting \<and> strategy = SameRegion \<longrightarrow>
          seedProviderType s = shootProviderType shoot \<and> seedProviderRegion s = Region shoot)
     \<and> (Purpose shoot \<noteq> Some ShootPurposeTesting \<and> strategy \<noteq> SameRegion \<longrightarrow>
          strategy = MinimalDistance \<and> seedDistance h shoot s \<le> 1000
          \<and> (\<forall>t\<in>set E. seedDistance h shoot s \<le> seedDistance h shoot t))"
proof (cases "Purpose shoot = Some ShootPurposeTesting")
  case True
  then have "cands = filter (\<lambda>seed. seedProviderType seed = shootProviderType shoot) E"
    using assms(1)
    by (auto simp: applyStrategy_def determineCandidatesOfSameProvider_def split: if_splits)
  then show ?thesis using True assms(2) by simp
next
  case False
  note nt = this
  show ?thesis
  proof (cases "strategy = SameRegion")
    case True
    then have "cands = filter (\<lambda>seed. seedProviderType seed = shootProviderType shoot
                    \<and> seedProviderRegion seed = Region shoot) E"
      using assms(1) nt
      by (cases "Purpose shoot")
         (auto simp: applyStrategy_def determineCandidatesWithSameRegionStrategy_def
               split: if_splits)
    then show ?thesis using True nt assms(2) by simp
  next
    case False
    have md: "strategy = MinimalDistance"
      using assms(1) nt False
      by (cases "Purpose shoot") (auto simp: applyStrategy_def split: if_splits)
    have "cands = determineCandidatesWithMinimalDistanceStrategy h E shoot"
      using assms(1) nt False md
      by (cases "Purpose shoot") (auto simp: applyStrategy_def split: if_splits)
    then have c: "cands = filter (\<lambda>seed. seedDistance h shoot seed
                    = Min (insert 1000 (seedDistance h shoot ` set E))) E"
      unfolding determineCandidatesWithMinimalDistanceStrategy_def minimalDistance_loop_inv
      by simp
    have sE: "s \<in> set E" and ds: "seedDistance h shoot s
                    = Min (insert 1000 (seedDistance h shoot ` set E))"
      using assms(2) unfolding c by simp_all
    have b1: "seedDistance h shoot s \<le> 1000" unfolding ds by (intro Min_le) simp_all
    have b2: "\<forall>t\<in>set E. seedDistance h shoot s \<le> seedDistance h shoot t"
    proof
      fix t assume "t \<in> set E"
      then show "seedDistance h shoot s \<le> seedDistance h shoot t"
        unfolding ds by (intro Min_le) simp_all
    qed
    show ?thesis using nt False md sE b1 b2 by simp
  qed
qed

lemma getSeedWithLeastShootsDeployed_in_set:
  assumes "xs \<noteq> []" "getSeedWithLeastShootsDeployed xs shootList = Return s"
  shows "s \<in> set xs"
proof -
  let ?uu = "\<lambda>s::Seed. CalculateSeedUsage shootList (Name (seedMeta s))"
  define M where "M = Min (?uu ` set xs)"
  have s: "s = hd (filter (\<lambda>t. ?uu t = M) xs)"
    using assms(2) leastShoots_loop_first[OF assms(1), of "CalculateSeedUsage shootList" zeroSeed]
    unfolding getSeedWithLeastShootsDeployed_def M_def by simp
  have "M \<in> ?uu ` set xs" unfolding M_def using assms(1) by (intro Min_in) simp_all
  then have "\<exists>x\<in>set xs. ?uu x = M" by auto
  from hd_filter_split[OF this] show ?thesis unfolding s[symmetric] by auto
qed

lemma applyStrategy_Return_nonempty:
  "applyStrategy h shoot E strategy = Return cands \<Longrightarrow> cands \<noteq> []"
  by (cases "Purpose shoot") (auto simp: applyStrategy_def Let_def split: if_splits)

lemma determineSeed_stages_Return:
  assumes "determineSeed_stages h shoot seedList shootList cloudProfile strategy = Return seed"
  shows "\<exists>cands.
           applyStrategy h shoot (filter (passesFilters h shoot shootList cloudProfile) seedList)
             strategy = Return cands
         \<and> seed \<in> set cands"
proof -
  from assms obtain f1 f2 f3 f4 f5 f6 f7 where
    s1: "filterUsableSeeds seedList = Return f1" and
    s2: "filterSeedsMatchingLabelSelector h f1 (cloudProfileSeedSelector cloudProfile)
           ''CloudProfile'' = Return f2" and
    s3: "filterSeedsMatchingLabelSelector h f2 (shootSeedSelector shoot) ''Shoot'' = Return f3" and
    s4: "filterSeedsMatchingProviders cloudProfile shoot f3 = Return f4" and
    s5: "filterSeedsForZonalShootControlPlanes f4 shoot = Return f5" and
    s6: "filterCandidates h shoot shootList f5 = Return f6" and
    s7: "applyStrategy h shoot f6 strategy = Return f7" and
    s8: "getSeedWithLeastShootsDeployed f7 shootList = Return seed"
    unfolding determineSeed_stages_def bind_Return_iff by blast
  have "f6 = filter (passesFilters h shoot shootList cloudProfile) seedList"
    unfolding filterCandidates_Return[OF s6] filterSeedsForZonalShootControlPlanes_Return[OF s5]
      filterSeedsMatchingProviders_Return[OF s4] filterSeedsMatchingLabelSelector_Return[OF s3]
      filterSeedsMatchingLabelSelector_Return[OF s2] filterUsableSeeds_Return[OF s1]
      filter_filter passesFilters_def
    by (intro filter_cong refl) blast
  moreover have "seed \<in> set f7"
    using getSeedWithLeastShootsDeployed_in_set[OF applyStrategy_Return_nonempty[OF s7] s8] .
  ultimately show ?thesis using s7 by blast
qed

section \<open>The reconcile\<close>

text \<open>The six ways a reconcile ends: the Shoot could not be read; it is already scheduled
  or being deleted; the pipeline panicked; the pipeline failed; the binding was refused;
  the binding was written.\<close>

lemma determineSeed_calls:
  "UpdateBindingCall s \<notin> set (snd (determineSeed h c shoot strategy))"
  by (simp add: determineSeed_def split: sum.splits)

lemma determineSeed_Return:
  assumes "determineSeed h c shoot strategy = (Return seed, reads)"
  shows "\<exists>seedList shootList cloudProfile.
           ListSeeds c = Inr seedList \<and> ListShoots c = Inr shootList
         \<and> GetCloudProfile c (CloudProfileName shoot) = Inr cloudProfile
         \<and> determineSeed_stages h shoot seedList shootList cloudProfile strategy = Return seed"
  using assms by (auto simp: determineSeed_def split: sum.splits)

lemma Reconcile_cases [case_names NotRead Skipped Panicked Failed Refused Bound]:
  obtains
    (NotRead) err where
      "GetShoot (Client r) request = Inl err"
      "Reconcile h r request =
         \<lparr>result = (if IsNotFound err then Return () else Fail (ErrRetrievingObject err)),
          events = [], calls = [GetShootCall request]\<rparr>"
  | (Skipped) shoot where
      "GetShoot (Client r) request = Inr shoot"
      "SeedName shoot \<noteq> None \<or> DeletionTimestamp (shootMeta shoot) \<noteq> None"
      "Reconcile h r request =
         \<lparr>result = Return (), events = [], calls = [GetShootCall request]\<rparr>"
  | (Panicked) shoot reads where
      "GetShoot (Client r) request = Inr shoot"
      "SeedName shoot = None" "DeletionTimestamp (shootMeta shoot) = None"
      "determineSeed h (Client r) shoot (Strategy (Config r)) = (Panic, reads)"
      "Reconcile h r request =
         \<lparr>result = Panic, events = [], calls = GetShootCall request # reads\<rparr>"
  | (Failed) shoot err reads where
      "GetShoot (Client r) request = Inr shoot"
      "SeedName shoot = None" "DeletionTimestamp (shootMeta shoot) = None"
      "determineSeed h (Client r) shoot (Strategy (Config r)) = (Fail err, reads)"
      "Reconcile h r request =
         \<lparr>result = Fail err, events = [failedSchedulingEvent shoot err],
          calls = GetShootCall request # reads\<rparr>"
  | (Refused) shoot seed reads err where
      "GetShoot (Client r) request = Inr shoot"
      "SeedName shoot = None" "DeletionTimestamp (shootMeta shoot) = None"
      "determineSeed h (Client r) shoot (Strategy (Config r)) = (Return seed, reads)"
      "UpdateBinding (Client r) (shoot\<lparr>SeedName := Some (Name (seedMeta seed))\<rparr>) = Some err"
      "Reconcile h r request =
         \<lparr>result = Fail (ErrClient err),
          events = [failedSchedulingEvent (shoot\<lparr>SeedName := Some (Name (seedMeta seed))\<rparr>)
                      (ErrClient err)],
          calls = GetShootCall request # reads
                    @ [UpdateBindingCall (shoot\<lparr>SeedName := Some (Name (seedMeta seed))\<rparr>)]\<rparr>"
  | (Bound) shoot seed reads where
      "GetShoot (Client r) request = Inr shoot"
      "SeedName shoot = None" "DeletionTimestamp (shootMeta shoot) = None"
      "determineSeed h (Client r) shoot (Strategy (Config r)) = (Return seed, reads)"
      "UpdateBinding (Client r) (shoot\<lparr>SeedName := Some (Name (seedMeta seed))\<rparr>) = None"
      "Reconcile h r request =
         \<lparr>result = Return (),
          events = [\<lparr>involvedObject = shoot\<lparr>SeedName := Some (Name (seedMeta seed))\<rparr>,
                     eventType = EventTypeNormal,
                     eventReason = ShootEventSchedulingSuccessful,
                     eventMessage = ScheduledToSeed (Name (seedMeta seed))\<rparr>],
          calls = GetShootCall request # reads
                    @ [UpdateBindingCall (shoot\<lparr>SeedName := Some (Name (seedMeta seed))\<rparr>)]\<rparr>"
proof (cases "GetShoot (Client r) request")
  case (Inl err)
  then show ?thesis using NotRead[of err] by (simp add: Reconcile_def)
next
  case (Inr shoot)
  show ?thesis
  proof (cases "SeedName shoot \<noteq> None \<or> DeletionTimestamp (shootMeta shoot) \<noteq> None")
    case True
    have "Reconcile h r request =
         \<lparr>result = Return (), events = [], calls = [GetShootCall request]\<rparr>"
      using True Inr by (auto simp: Reconcile_def)
    then show ?thesis using Skipped[OF Inr True] by simp
  next
    case False
    then have sn: "SeedName shoot = None" and dt: "DeletionTimestamp (shootMeta shoot) = None"
      by simp_all
    obtain out reads where ds: "determineSeed h (Client r) shoot (Strategy (Config r)) = (out, reads)"
      by (cases "determineSeed h (Client r) shoot (Strategy (Config r))")
    show ?thesis
    proof (cases out)
      case (Return seed)
      show ?thesis
      proof (cases "UpdateBinding (Client r) (shoot\<lparr>SeedName := Some (Name (seedMeta seed))\<rparr>)")
        case None
        show ?thesis
          by (rule Bound[OF Inr sn dt ds[unfolded Return] None])
             (simp add: Reconcile_def Let_def Inr sn dt ds Return None)
      next
        case (Some err)
        show ?thesis
          by (rule Refused[OF Inr sn dt ds[unfolded Return] Some])
             (simp add: Reconcile_def Let_def Inr sn dt ds Return Some)
      qed
    next
      case (Fail err)
      show ?thesis
        by (rule Failed[OF Inr sn dt ds[unfolded Fail]])
           (simp add: Reconcile_def Inr sn dt ds Fail)
    next
      case Panic
      show ?thesis
        by (rule Panicked[OF Inr sn dt ds[unfolded Panic]])
           (simp add: Reconcile_def Inr sn dt ds Panic)
    qed
  qed
qed

lemma Reconcile_success:
  assumes "result (Reconcile h r request) = Return ()"
      and "\<exists>e\<in>set (events (Reconcile h r request)). eventReason e = ShootEventSchedulingSuccessful"
  shows "\<exists>shoot seed reads. GetShoot (Client r) request = Inr shoot
         \<and> determineSeed h (Client r) shoot (Strategy (Config r)) = (Return seed, reads)
         \<and> UpdateBinding (Client r) (shoot\<lparr>SeedName := Some (Name (seedMeta seed))\<rparr>) = None
         \<and> calls (Reconcile h r request) = GetShootCall request # reads
                        @ [UpdateBindingCall (shoot\<lparr>SeedName := Some (Name (seedMeta seed))\<rparr>)]"
proof (cases rule: Reconcile_cases[of r request h])
  case (NotRead err)
  then show ?thesis using assms(2) by simp
next
  case (Skipped shoot)
  then show ?thesis using assms(2) by simp
next
  case (Panicked shoot reads)
  then show ?thesis using assms(1) by simp
next
  case (Failed shoot err reads)
  then show ?thesis using assms(1) by simp
next
  case (Refused shoot seed reads err)
  then show ?thesis using assms(1) by simp
next
  case (Bound shoot seed reads)
  have "calls (Reconcile h r request) = GetShootCall request # reads
                        @ [UpdateBindingCall (shoot\<lparr>SeedName := Some (Name (seedMeta seed))\<rparr>)]"
    unfolding Bound(6) by simp
  with Bound(1,4,5) show ?thesis by blast
qed

lemma Reconcile_binding:
  assumes "UpdateBindingCall shoot' \<in> set (calls (Reconcile h r request))"
  shows "\<exists>shoot seed reads. GetShoot (Client r) request = Inr shoot
         \<and> determineSeed h (Client r) shoot (Strategy (Config r)) = (Return seed, reads)
         \<and> shoot' = shoot\<lparr>SeedName := Some (Name (seedMeta seed))\<rparr>"
proof -
  have no: "UpdateBindingCall shoot' \<notin> set reads"
    if "determineSeed h (Client r) shoot (Strategy (Config r)) = (out, reads)" for shoot out reads
    using determineSeed_calls[of shoot' h "Client r" shoot "Strategy (Config r)"] that by simp
  show ?thesis
  proof (cases rule: Reconcile_cases[of r request h])
    case (NotRead err)
    then show ?thesis using assms by simp
  next
    case (Skipped shoot)
    then show ?thesis using assms by simp
  next
    case (Panicked shoot reads)
    then show ?thesis using assms no[OF Panicked(4)] by simp
  next
    case (Failed shoot err reads)
    then show ?thesis using assms no[OF Failed(4)] by simp
  next
    case (Refused shoot seed reads err)
    have "shoot' = shoot\<lparr>SeedName := Some (Name (seedMeta seed))\<rparr>"
      using assms no[OF Refused(4)] unfolding Refused(6) by simp
    with Refused(1,4) show ?thesis by blast
  next
    case (Bound shoot seed reads)
    have "shoot' = shoot\<lparr>SeedName := Some (Name (seedMeta seed))\<rparr>"
      using assms no[OF Bound(4)] unfolding Bound(6) by simp
    with Bound(1,4) show ?thesis by blast
  qed
qed

lemma Reconcile_noop_calls:
  assumes "(\<exists>err. GetShoot (Client r) request = Inl err \<and> IsNotFound err)
     \<or> (\<exists>shoot. GetShoot (Client r) request = Inr shoot
           \<and> (SeedName shoot \<noteq> None \<or> DeletionTimestamp (shootMeta shoot) \<noteq> None))"
  shows "Reconcile h r request =
           \<lparr>result = Return (), events = [], calls = [GetShootCall request]\<rparr>"
  using assms by (auto simp: Reconcile_def)

lemma Reconcile_noop:
  assumes "result (Reconcile h r request) = Return ()" "events (Reconcile h r request) = []"
  shows "(\<exists>err. GetShoot (Client r) request = Inl err \<and> IsNotFound err)
     \<or> (\<exists>shoot. GetShoot (Client r) request = Inr shoot
           \<and> (SeedName shoot \<noteq> None \<or> DeletionTimestamp (shootMeta shoot) \<noteq> None))"
proof (cases rule: Reconcile_cases[of r request h])
  case (NotRead err)
  then show ?thesis using assms(1) by (simp split: if_splits)
next
  case (Skipped shoot)
  then show ?thesis by blast
next
  case (Panicked shoot reads)
  then show ?thesis using assms(1) by simp
next
  case (Failed shoot err reads)
  then show ?thesis using assms(1) by simp
next
  case (Refused shoot seed reads err)
  then show ?thesis using assms(1) by simp
next
  case (Bound shoot seed reads)
  then show ?thesis using assms(2) by simp
qed

lemma isUsableSeed_iff:
  "isUsableSeed seed \<longleftrightarrow>
     DeletionTimestamp (seedMeta seed) = None \<and> Visible seed
     \<and> (\<exists>c. GetCondition (Conditions seed) SeedBootstrapped = Some c \<and> Status c = ConditionTrue)
     \<and> (\<exists>c. GetCondition (Conditions seed) SeedGardenletReady = Some c \<and> Status c = ConditionTrue)
     \<and> (Backup seed \<noteq> None \<longrightarrow>
          (\<exists>c. GetCondition (Conditions seed) SeedBackupBucketsReady = Some c
               \<and> Status c = ConditionTrue))"
  by (auto simp: isUsableSeed_def verifySeedReadiness_def conditionIsTrue_def
           split: option.splits)

text \<open>
  Claim C1. When a reconcile returns done and has recorded the event
  \<open>ShootEventSchedulingSuccessful\<close>, its last call wrote, with success, the binding of the
  Shoot to a Seed of the Seed snapshot, and with respect to the snapshots that this
  reconcile read (all Seeds, all Shoots, the CloudProfile of the Shoot) that Seed is usable,
  matches the label selector of the CloudProfile and the one of the Shoot when they are
  set, matches the providers, has at least three zones when the Shoot asks for zone
  failure tolerance, has networks disjoint from the Shoot's, has only tolerated taints,
  has capacity left, and satisfies the branch of the strategy stage: the provider type of
  the Shoot for the purpose \<open>testing\<close>; else provider type and region of the Shoot under
  \<open>SameRegion\<close>; else the strategy is \<open>MinimalDistance\<close> and the distance of the Seed is at
  most 1000 and at most the distance of every Seed that passes the filter stages.
\<close>

theorem scheduled_seed_passes_every_stage:
  assumes "result (Reconcile h r request) = Return ()"
      and "\<exists>e\<in>set (events (Reconcile h r request)). eventReason e = ShootEventSchedulingSuccessful"
  shows "\<exists>shoot seedList shootList cloudProfile chosen.
           GetShoot (Client r) request = Inr shoot
         \<and> ListSeeds (Client r) = Inr seedList
         \<and> ListShoots (Client r) = Inr shootList
         \<and> GetCloudProfile (Client r) (CloudProfileName shoot) = Inr cloudProfile
         \<and> last (calls (Reconcile h r request))
             = UpdateBindingCall (shoot\<lparr>SeedName := Some (Name (seedMeta chosen))\<rparr>)
         \<and> UpdateBinding (Client r) (shoot\<lparr>SeedName := Some (Name (seedMeta chosen))\<rparr>) = None
         \<and> chosen \<in> set seedList
         \<and> (let passes = (\<lambda>seed.
                isUsableSeed seed
                \<and> (\<forall>sel. cloudProfileSeedSelector cloudProfile = Some sel \<longrightarrow>
                      (\<exists>selector. LabelSelectorAsSelector h (LabelSelector sel) = Inr selector
                                 \<and> Matches h selector (Labels (seedMeta seed))))
                \<and> (\<forall>sel. shootSeedSelector shoot = Some sel \<longrightarrow>
                      (\<exists>selector. LabelSelectorAsSelector h (LabelSelector sel) = Inr selector
                                 \<and> Matches h selector (Labels (seedMeta seed))))
                \<and> matchProvider (seedProviderType seed) (shootProviderType shoot)
                     (case cloudProfileSeedSelector cloudProfile of
                        None \<Rightarrow> [] | Some sel \<Rightarrow> ProviderTypes sel)
                \<and> (IsMultiZonalShootControlPlane shoot \<longrightarrow> 3 \<le> length (Zones seed))
                \<and> fst (networksAreDisjointed h seed shoot)
                \<and> TaintsAreTolerated h (Taints seed) (Tolerations shoot)
                \<and> (\<forall>K. Allocatable seed ResourceShoots = Some K \<longrightarrow>
                      CalculateSeedUsage shootList (Name (seedMeta seed)) < K))
            in passes chosen
             \<and> (Purpose shoot = Some ShootPurposeTesting \<longrightarrow>
                  seedProviderType chosen = shootProviderType shoot)
             \<and> (Purpose shoot \<noteq> Some ShootPurposeTesting
                  \<and> Strategy (Config r) = SameRegion \<longrightarrow>
                    seedProviderType chosen = shootProviderType shoot
                  \<and> seedProviderRegion chosen = Region shoot)
             \<and> (Purpose shoot \<noteq> Some ShootPurposeTesting
                  \<and> Strategy (Config r) \<noteq> SameRegion \<longrightarrow>
                    Strategy (Config r) = MinimalDistance
                  \<and> seedDistance h shoot chosen \<le> 1000
                  \<and> (\<forall>t\<in>set seedList. passes t \<longrightarrow>
                        seedDistance h shoot chosen \<le> seedDistance h shoot t)))"
proof -
  from Reconcile_success[OF assms] obtain shoot seed reads where
    g: "GetShoot (Client r) request = Inr shoot" and
    d: "determineSeed h (Client r) shoot (Strategy (Config r)) = (Return seed, reads)" and
    u: "UpdateBinding (Client r) (shoot\<lparr>SeedName := Some (Name (seedMeta seed))\<rparr>) = None" and
    c: "calls (Reconcile h r request) = GetShootCall request # reads
                        @ [UpdateBindingCall (shoot\<lparr>SeedName := Some (Name (seedMeta seed))\<rparr>)]"
    by blast
  from determineSeed_Return[OF d] obtain seedList shootList cloudProfile where
    l1: "ListSeeds (Client r) = Inr seedList" and
    l2: "ListShoots (Client r) = Inr shootList" and
    l3: "GetCloudProfile (Client r) (CloudProfileName shoot) = Inr cloudProfile" and
    st: "determineSeed_stages h shoot seedList shootList cloudProfile (Strategy (Config r))
           = Return seed"
    by blast
  define E where "E = filter (passesFilters h shoot shootList cloudProfile) seedList"
  from determineSeed_stages_Return[OF st] obtain cands where
    a: "applyStrategy h shoot E (Strategy (Config r)) = Return cands" and
    m: "seed \<in> set cands"
    unfolding E_def by blast
  note s = applyStrategy_Return[OF a m]
  have inE: "seed \<in> set E" using s by simp
  then have mem: "seed \<in> set seedList" and pass: "passesFilters h shoot shootList cloudProfile seed"
    unfolding E_def by simp_all
  have E_iff: "t \<in> set E \<longleftrightarrow> t \<in> set seedList \<and> passesFilters h shoot shootList cloudProfile t"
    for t unfolding E_def by simp
  have lastc: "last (calls (Reconcile h r request))
             = UpdateBindingCall (shoot\<lparr>SeedName := Some (Name (seedMeta seed))\<rparr>)"
    unfolding c by simp
  have strat: "(Purpose shoot = Some ShootPurposeTesting \<longrightarrow>
                  seedProviderType seed = shootProviderType shoot)
             \<and> (Purpose shoot \<noteq> Some ShootPurposeTesting
                  \<and> Strategy (Config r) = SameRegion \<longrightarrow>
                    seedProviderType seed = shootProviderType shoot
                  \<and> seedProviderRegion seed = Region shoot)
             \<and> (Purpose shoot \<noteq> Some ShootPurposeTesting
                  \<and> Strategy (Config r) \<noteq> SameRegion \<longrightarrow>
                    Strategy (Config r) = MinimalDistance
                  \<and> seedDistance h shoot seed \<le> 1000
                  \<and> (\<forall>t\<in>set seedList. passesFilters h shoot shootList cloudProfile t \<longrightarrow>
                        seedDistance h shoot seed \<le> seedDistance h shoot t))"
    using s E_iff by blast
  have "let passes = passesFilters h shoot shootList cloudProfile
        in passes seed
             \<and> (Purpose shoot = Some ShootPurposeTesting \<longrightarrow>
                  seedProviderType seed = shootProviderType shoot)
             \<and> (Purpose shoot \<noteq> Some ShootPurposeTesting
                  \<and> Strategy (Config r) = SameRegion \<longrightarrow>
                    seedProviderType seed = shootProviderType shoot
                  \<and> seedProviderRegion seed = Region shoot)
             \<and> (Purpose shoot \<noteq> Some ShootPurposeTesting
                  \<and> Strategy (Config r) \<noteq> SameRegion \<longrightarrow>
                    Strategy (Config r) = MinimalDistance
                  \<and> seedDistance h shoot seed \<le> 1000
                  \<and> (\<forall>t\<in>set seedList. passes t \<longrightarrow>
                        seedDistance h shoot seed \<le> seedDistance h shoot t))"
    unfolding Let_def using pass strat by blast
  then have final: "let passes = (\<lambda>seed.
                isUsableSeed seed
                \<and> (\<forall>sel. cloudProfileSeedSelector cloudProfile = Some sel \<longrightarrow>
                      (\<exists>selector. LabelSelectorAsSelector h (LabelSelector sel) = Inr selector
                                 \<and> Matches h selector (Labels (seedMeta seed))))
                \<and> (\<forall>sel. shootSeedSelector shoot = Some sel \<longrightarrow>
                      (\<exists>selector. LabelSelectorAsSelector h (LabelSelector sel) = Inr selector
                                 \<and> Matches h selector (Labels (seedMeta seed))))
                \<and> matchProvider (seedProviderType seed) (shootProviderType shoot)
                     (case cloudProfileSeedSelector cloudProfile of
                        None \<Rightarrow> [] | Some sel \<Rightarrow> ProviderTypes sel)
                \<and> (IsMultiZonalShootControlPlane shoot \<longrightarrow> 3 \<le> length (Zones seed))
                \<and> fst (networksAreDisjointed h seed shoot)
                \<and> TaintsAreTolerated h (Taints seed) (Tolerations shoot)
                \<and> (\<forall>K. Allocatable seed ResourceShoots = Some K \<longrightarrow>
                      CalculateSeedUsage shootList (Name (seedMeta seed)) < K))
            in passes seed
             \<and> (Purpose shoot = Some ShootPurposeTesting \<longrightarrow>
                  seedProviderType seed = shootProviderType shoot)
             \<and> (Purpose shoot \<noteq> Some ShootPurposeTesting
                  \<and> Strategy (Config r) = SameRegion \<longrightarrow>
                    seedProviderType seed = shootProviderType shoot
                  \<and> seedProviderRegion seed = Region shoot)
             \<and> (Purpose shoot \<noteq> Some ShootPurposeTesting
                  \<and> Strategy (Config r) \<noteq> SameRegion \<longrightarrow>
                    Strategy (Config r) = MinimalDistance
                  \<and> seedDistance h shoot seed \<le> 1000
                  \<and> (\<forall>t\<in>set seedList. passes t \<longrightarrow>
                        seedDistance h shoot seed \<le> seedDistance h shoot t))"
    unfolding passesFilters_def[abs_def] .
  show ?thesis
    apply (rule exI[of _ shoot], rule exI[of _ seedList], rule exI[of _ shootList],
           rule exI[of _ cloudProfile], rule exI[of _ seed])
    using g l1 l2 l3 lastc u mem final by blast
qed

text \<open>The definitions that a run of the pipeline on concrete data unfolds.\<close>

lemmas pipeline_defs =
  Reconcile_def determineSeed_def determineSeed_stages_def filterUsableSeeds_def
  isUsableSeed_def verifySeedReadiness_def conditionIsTrue_def GetCondition_def
  filterSeedsMatchingLabelSelector_def filterSeedsMatchingProviders_def matchProvider_def
  filterSeedsForZonalShootControlPlanes_def IsMultiZonalShootControlPlane_def
  filterCandidates_def networksAreDisjointed_def CalculateSeedUsage_def applyStrategy_def
  determineCandidatesOfSameProvider_def determineCandidatesWithSameRegionStrategy_def
  determineCandidatesWithMinimalDistanceStrategy_def seedDistance_def
  getSeedWithLeastShootsDeployed_def errorMapToString_def TrimSuffix_def
  failedSchedulingEvent_def IsNotFound_def

lemmas constant_defs =
  ShootPurposeTesting_def FailureToleranceTypeZone_def SameRegion_def MinimalDistance_def
  Strategies_def SeedBootstrapped_def SeedGardenletReady_def SeedBackupBucketsReady_def
  ConditionTrue_def ResourceShoots_def

lemmas scenario_defs =
  scenarioSeed_def scenarioShoot_def scenarioConditions_def scenarioProfile_def
  scenarioEnv_def scenarioClient_def scenarioReconciler_def scenarioEnvReversed_def
  scenarioTaintedSeed_def

text \<open>Scenario 1 of the spec: one usable Seed of the Shoot's provider and region, no Shoot
  bound yet, strategy \<open>SameRegion\<close>.\<close>

lemma scenario_happy_path:
  "Reconcile scenarioEnv
     (scenarioReconciler SameRegion (scenarioShoot ''x'' ''aws'' ''eu-west-1'' None)
        [scenarioSeed ''seed-1'' ''aws'' ''eu-west-1''] [])
     (''garden-dev'', ''x'')
   = \<lparr>result = Return (),
      events = [\<lparr>involvedObject = scenarioShoot ''x'' ''aws'' ''eu-west-1'' (Some ''seed-1''),
                 eventType = EventTypeNormal,
                 eventReason = ShootEventSchedulingSuccessful,
                 eventMessage = ScheduledToSeed ''seed-1''\<rparr>],
      calls = [GetShootCall (''garden-dev'', ''x''), ListSeedsCall, ListShootsCall,
               GetCloudProfileCall ''profile'',
               UpdateBindingCall (scenarioShoot ''x'' ''aws'' ''eu-west-1'' (Some ''seed-1''))]\<rparr>"
  by (simp add: pipeline_defs constant_defs scenario_defs Let_def)

theorem scheduled_seed_passes_every_stage_witness:
  "result (Reconcile scenarioEnv
     (scenarioReconciler SameRegion (scenarioShoot ''x'' ''aws'' ''eu-west-1'' None)
        [scenarioSeed ''seed-1'' ''aws'' ''eu-west-1''] [])
     (''garden-dev'', ''x'')) = Return ()
   \<and> (\<exists>e\<in>set (events (Reconcile scenarioEnv
     (scenarioReconciler SameRegion (scenarioShoot ''x'' ''aws'' ''eu-west-1'' None)
        [scenarioSeed ''seed-1'' ''aws'' ''eu-west-1''] [])
     (''garden-dev'', ''x''))). eventReason e = ShootEventSchedulingSuccessful)
   \<and> last (calls (Reconcile scenarioEnv
     (scenarioReconciler SameRegion (scenarioShoot ''x'' ''aws'' ''eu-west-1'' None)
        [scenarioSeed ''seed-1'' ''aws'' ''eu-west-1''] [])
     (''garden-dev'', ''x'')))
     = UpdateBindingCall (scenarioShoot ''x'' ''aws'' ''eu-west-1'' None
         \<lparr>SeedName := Some (Name (seedMeta (scenarioSeed ''seed-1'' ''aws'' ''eu-west-1'')))\<rparr>)
   \<and> isUsableSeed (scenarioSeed ''seed-1'' ''aws'' ''eu-west-1'')
   \<and> seedProviderRegion (scenarioSeed ''seed-1'' ''aws'' ''eu-west-1'')
       = Region (scenarioShoot ''x'' ''aws'' ''eu-west-1'' None)"
proof -
  let ?r = "scenarioReconciler SameRegion (scenarioShoot ''x'' ''aws'' ''eu-west-1'' None)
        [scenarioSeed ''seed-1'' ''aws'' ''eu-west-1''] []"
  let ?run = "Reconcile scenarioEnv ?r (''garden-dev'', ''x'')"
  have a1: "result ?run = Return ()" unfolding scenario_happy_path by simp
  have a2: "\<exists>e\<in>set (events ?run). eventReason e = ShootEventSchedulingSuccessful"
    unfolding scenario_happy_path by simp
  have g: "GetShoot (Client ?r) (''garden-dev'', ''x'')
             = Inr (scenarioShoot ''x'' ''aws'' ''eu-west-1'' None)"
    by (simp add: scenario_defs)
  have l: "ListSeeds (Client ?r) = Inr [scenarioSeed ''seed-1'' ''aws'' ''eu-west-1'']"
    by (simp add: scenario_defs)
  have p: "Purpose (scenarioShoot ''x'' ''aws'' ''eu-west-1'' None) \<noteq> Some ShootPurposeTesting"
    by (simp add: scenarioShoot_def ShootPurposeTesting_def)
  have s: "Strategy (Config ?r) = SameRegion" by (simp add: scenarioReconciler_def)
  from scheduled_seed_passes_every_stage[OF a1 a2]
  obtain shoot seedList and shootList :: "Shoot list" and cloudProfile :: CloudProfile
    and chosen where
    w: "GetShoot (Client ?r) (''garden-dev'', ''x'') = Inr shoot"
       "ListSeeds (Client ?r) = Inr seedList"
       "last (calls ?run) = UpdateBindingCall (shoot\<lparr>SeedName := Some (Name (seedMeta chosen))\<rparr>)"
       "chosen \<in> set seedList"
       "isUsableSeed chosen"
       "Purpose shoot \<noteq> Some ShootPurposeTesting \<and> Strategy (Config ?r) = SameRegion \<longrightarrow>
          seedProviderType chosen = shootProviderType shoot
          \<and> seedProviderRegion chosen = Region shoot"
    unfolding Let_def by blast
  have sh: "shoot = scenarioShoot ''x'' ''aws'' ''eu-west-1'' None" using w(1) g by simp
  have "seedList = [scenarioSeed ''seed-1'' ''aws'' ''eu-west-1'']" using w(2) l by simp
  then have ch: "chosen = scenarioSeed ''seed-1'' ''aws'' ''eu-west-1''" using w(4) by simp
  show ?thesis using a1 a2 w(3,5,6) p s unfolding sh ch by blast
qed

lemma distinct_names_unique:
  assumes "distinct (map f xs)" "x \<in> set xs" "y \<in> set xs" "f x = f y"
  shows "x = y"
  using assms by (meson distinct_map inj_onD)

text \<open>
  Claim C2. Whenever a reconcile sets \<open>seedName\<close> and writes the binding (whether or not
  the write succeeds), the name is the name of a Seed of the Seed snapshot that had no
  deletion timestamp, was visible for scheduling, had the conditions \<open>Bootstrapped\<close> and
  \<open>GardenletReady\<close> with status \<open>True\<close> and, when its backup is configured, the condition
  \<open>BackupBucketsReady\<close> with status \<open>True\<close>. When the names of the snapshot are distinct,
  no other Seed of the snapshot has that name.
\<close>

theorem bound_seed_is_usable:
  assumes "UpdateBindingCall shoot' \<in> set (calls (Reconcile h r request))"
  shows "\<exists>seedList chosen.
           ListSeeds (Client r) = Inr seedList
         \<and> chosen \<in> set seedList
         \<and> SeedName shoot' = Some (Name (seedMeta chosen))
         \<and> DeletionTimestamp (seedMeta chosen) = None
         \<and> Visible chosen
         \<and> (\<exists>c. GetCondition (Conditions chosen) SeedBootstrapped = Some c
                \<and> Status c = ConditionTrue)
         \<and> (\<exists>c. GetCondition (Conditions chosen) SeedGardenletReady = Some c
                \<and> Status c = ConditionTrue)
         \<and> (Backup chosen \<noteq> None \<longrightarrow>
               (\<exists>c. GetCondition (Conditions chosen) SeedBackupBucketsReady = Some c
                    \<and> Status c = ConditionTrue))
         \<and> (distinct (map (\<lambda>seed. Name (seedMeta seed)) seedList) \<longrightarrow>
               (\<forall>seed\<in>set seedList.
                  SeedName shoot' = Some (Name (seedMeta seed)) \<longrightarrow> seed = chosen))"
proof -
  from Reconcile_binding[OF assms] obtain shoot seed reads where
    d: "determineSeed h (Client r) shoot (Strategy (Config r)) = (Return seed, reads)" and
    s': "shoot' = shoot\<lparr>SeedName := Some (Name (seedMeta seed))\<rparr>"
    by blast
  from determineSeed_Return[OF d] obtain seedList shootList cloudProfile where
    l1: "ListSeeds (Client r) = Inr seedList" and
    st: "determineSeed_stages h shoot seedList shootList cloudProfile (Strategy (Config r))
           = Return seed"
    by blast
  from determineSeed_stages_Return[OF st] obtain cands where
    a: "applyStrategy h shoot (filter (passesFilters h shoot shootList cloudProfile) seedList)
          (Strategy (Config r)) = Return cands" and
    m: "seed \<in> set cands"
    by blast
  have "seed \<in> set (filter (passesFilters h shoot shootList cloudProfile) seedList)"
    using applyStrategy_Return[OF a m] by simp
  then have mem: "seed \<in> set seedList" and us: "isUsableSeed seed"
    by (simp_all add: passesFilters_def)
  have name: "SeedName shoot' = Some (Name (seedMeta seed))" unfolding s' by simp
  have uniq: "distinct (map (\<lambda>seed. Name (seedMeta seed)) seedList) \<longrightarrow>
               (\<forall>t\<in>set seedList. SeedName shoot' = Some (Name (seedMeta t)) \<longrightarrow> t = seed)"
    unfolding name using mem
    by (auto dest: distinct_names_unique[where f = "\<lambda>seed. Name (seedMeta seed)"])
  show ?thesis
    apply (rule exI[of _ seedList], rule exI[of _ seed])
    using l1 mem name us[unfolded isUsableSeed_iff] uniq by blast
qed

theorem bound_seed_is_usable_witness:
  "UpdateBindingCall (scenarioShoot ''x'' ''aws'' ''eu-west-1'' (Some ''seed-2''))
     \<in> set (calls (Reconcile scenarioEnv
          (scenarioReconciler SameRegion (scenarioShoot ''x'' ''aws'' ''eu-west-1'' None)
             [scenarioSeed ''seed-1'' ''aws'' ''eu-west-1''
                \<lparr>seedMeta := \<lparr>Name = ''seed-1'', Namespace = [], Labels = Map.empty,
                               DeletionTimestamp = Some 7\<rparr>\<rparr>,
              scenarioSeed ''seed-2'' ''aws'' ''eu-west-1''] [])
          (''garden-dev'', ''x'')))
   \<and> (\<exists>chosen. chosen \<in> set [scenarioSeed ''seed-1'' ''aws'' ''eu-west-1''
                \<lparr>seedMeta := \<lparr>Name = ''seed-1'', Namespace = [], Labels = Map.empty,
                               DeletionTimestamp = Some 7\<rparr>\<rparr>,
              scenarioSeed ''seed-2'' ''aws'' ''eu-west-1'']
         \<and> Some ''seed-2'' = Some (Name (seedMeta chosen))
         \<and> DeletionTimestamp (seedMeta chosen) = None \<and> Visible chosen)"
proof -
  let ?seeds = "[scenarioSeed ''seed-1'' ''aws'' ''eu-west-1''
                \<lparr>seedMeta := \<lparr>Name = ''seed-1'', Namespace = [], Labels = Map.empty,
                               DeletionTimestamp = Some 7\<rparr>\<rparr>,
              scenarioSeed ''seed-2'' ''aws'' ''eu-west-1'']"
  let ?r = "scenarioReconciler SameRegion (scenarioShoot ''x'' ''aws'' ''eu-west-1'' None)
              ?seeds []"
  have run: "calls (Reconcile scenarioEnv ?r (''garden-dev'', ''x''))
      = [GetShootCall (''garden-dev'', ''x''), ListSeedsCall, ListShootsCall,
         GetCloudProfileCall ''profile'',
         UpdateBindingCall (scenarioShoot ''x'' ''aws'' ''eu-west-1'' (Some ''seed-2''))]"
    by (simp add: pipeline_defs constant_defs scenario_defs Let_def)
  have a: "UpdateBindingCall (scenarioShoot ''x'' ''aws'' ''eu-west-1'' (Some ''seed-2''))
     \<in> set (calls (Reconcile scenarioEnv ?r (''garden-dev'', ''x'')))"
    unfolding run by simp
  have l: "ListSeeds (Client ?r) = Inr ?seeds" by (simp add: scenario_defs)
  have n: "SeedName (scenarioShoot ''x'' ''aws'' ''eu-west-1'' (Some ''seed-2'')) = Some ''seed-2''"
    by (simp add: scenarioShoot_def)
  from bound_seed_is_usable[OF a] obtain seedList chosen where
    w: "ListSeeds (Client ?r) = Inr seedList" "chosen \<in> set seedList"
       "SeedName (scenarioShoot ''x'' ''aws'' ''eu-west-1'' (Some ''seed-2''))
          = Some (Name (seedMeta chosen))"
       "DeletionTimestamp (seedMeta chosen) = None" "Visible chosen"
    by blast
  have "seedList = ?seeds" using w(1) l by simp
  then show ?thesis using a w(2,3,4,5) unfolding n by blast
qed

section \<open>The reconciles that do nothing\<close>

text \<open>A Shoot whose \<open>seedName\<close> is set to the empty string is skipped like a scheduled one.\<close>

lemma scenario_empty_seed_name:
  "Reconcile scenarioEnv
     (scenarioReconciler SameRegion (scenarioShoot ''x'' ''aws'' ''eu-west-1'' (Some []))
        [scenarioSeed ''seed-1'' ''aws'' ''eu-west-1''] [])
     (''garden-dev'', ''x'')
   = \<lparr>result = Return (), events = [], calls = [GetShootCall (''garden-dev'', ''x'')]\<rparr>"
  by (simp add: Reconcile_def scenario_defs)

text \<open>
  Claim C4, as stated, fails: a reconcile also returns done, with no event and no write,
  for a Shoot that exists, is not being deleted, and whose \<open>seedName\<close> is set but empty.
\<close>

theorem reconcile_noop_counterexample:
  "result (Reconcile scenarioEnv
     (scenarioReconciler SameRegion (scenarioShoot ''x'' ''aws'' ''eu-west-1'' (Some []))
        [scenarioSeed ''seed-1'' ''aws'' ''eu-west-1''] [])
     (''garden-dev'', ''x'')) = Return ()
   \<and> events (Reconcile scenarioEnv
     (scenarioReconciler SameRegion (scenarioShoot ''x'' ''aws'' ''eu-west-1'' (Some []))
        [scenarioSeed ''seed-1'' ''aws'' ''eu-west-1''] [])
     (''garden-dev'', ''x'')) = []
   \<and> calls (Reconcile scenarioEnv
     (scenarioReconciler SameRegion (scenarioShoot ''x'' ''aws'' ''eu-west-1'' (Some []))
        [scenarioSeed ''seed-1'' ''aws'' ''eu-west-1''] [])
     (''garden-dev'', ''x'')) = [GetShootCall (''garden-dev'', ''x'')]
   \<and> GetShoot (Client (scenarioReconciler SameRegion
         (scenarioShoot ''x'' ''aws'' ''eu-west-1'' (Some []))
         [scenarioSeed ''seed-1'' ''aws'' ''eu-west-1''] [])) (''garden-dev'', ''x'')
       = Inr (scenarioShoot ''x'' ''aws'' ''eu-west-1'' (Some []))
   \<and> SeedName (scenarioShoot ''x'' ''aws'' ''eu-west-1'' (Some [])) = Some []
   \<and> DeletionTimestamp (shootMeta (scenarioShoot ''x'' ''aws'' ''eu-west-1'' (Some []))) = None"
  unfolding scenario_empty_seed_name by (simp add: scenario_defs)

text \<open>
  Claim C4, amended. A reconcile returns done with no event and no write of the binding
  exactly when the Shoot did not exist, or its \<open>seedName\<close> was set (to any value, the empty
  string included), or it was marked for deletion. In particular, a reconcile of a Shoot
  as a previous reconcile wrote it does nothing: it returns done after its one read of the
  Shoot, with no event and no write.
\<close>

theorem reconcile_noop_exactly_when_skipped:
  "(result (Reconcile h r request) = Return ()
      \<and> events (Reconcile h r request) = []
      \<and> (\<forall>shoot'. UpdateBindingCall shoot' \<notin> set (calls (Reconcile h r request)))
    \<longleftrightarrow> (\<exists>err. GetShoot (Client r) request = Inl err \<and> IsNotFound err)
        \<or> (\<exists>shoot. GetShoot (Client r) request = Inr shoot
              \<and> (SeedName shoot \<noteq> None \<or> DeletionTimestamp (shootMeta shoot) \<noteq> None)))
   \<and> (UpdateBindingCall written \<in> set (calls (Reconcile h r request))
        \<and> GetShoot (Client r') request = Inr written \<longrightarrow>
          Reconcile h' r' request =
            \<lparr>result = Return (), events = [], calls = [GetShootCall request]\<rparr>)"
proof -
  let ?skipped = "(\<exists>err. GetShoot (Client r) request = Inl err \<and> IsNotFound err)
        \<or> (\<exists>shoot. GetShoot (Client r) request = Inr shoot
              \<and> (SeedName shoot \<noteq> None \<or> DeletionTimestamp (shootMeta shoot) \<noteq> None))"
  have fwd: "?skipped"
    if "result (Reconcile h r request) = Return ()" "events (Reconcile h r request) = []"
    using Reconcile_noop[OF that] .
  have bwd: "result (Reconcile h r request) = Return ()
      \<and> events (Reconcile h r request) = []
      \<and> (\<forall>shoot'. UpdateBindingCall shoot' \<notin> set (calls (Reconcile h r request)))"
    if "?skipped"
    unfolding Reconcile_noop_calls[OF that] by simp
  have again: "Reconcile h' r' request =
            \<lparr>result = Return (), events = [], calls = [GetShootCall request]\<rparr>"
    if w: "UpdateBindingCall written \<in> set (calls (Reconcile h r request))"
      and g: "GetShoot (Client r') request = Inr written"
  proof -
    from Reconcile_binding[OF w] obtain shoot :: Shoot and seed :: Seed where
      "written = shoot\<lparr>SeedName := Some (Name (seedMeta seed))\<rparr>" by blast
    then have "SeedName written \<noteq> None" by simp
    with g show ?thesis by (intro Reconcile_noop_calls) blast
  qed
  show ?thesis using fwd bwd again by blast
qed

theorem reconcile_noop_exactly_when_skipped_witness:
  "result (Reconcile scenarioEnv
     (scenarioReconciler SameRegion (scenarioShoot ''x'' ''aws'' ''eu-west-1'' (Some ''seed-1''))
        [scenarioSeed ''seed-1'' ''aws'' ''eu-west-1''] [])
     (''garden-dev'', ''x'')) = Return ()
   \<and> events (Reconcile scenarioEnv
     (scenarioReconciler SameRegion (scenarioShoot ''x'' ''aws'' ''eu-west-1'' (Some ''seed-1''))
        [scenarioSeed ''seed-1'' ''aws'' ''eu-west-1''] [])
     (''garden-dev'', ''x'')) = []
   \<and> UpdateBindingCall (scenarioShoot ''x'' ''aws'' ''eu-west-1'' (Some ''seed-1''))
       \<in> set (calls (Reconcile scenarioEnv
            (scenarioReconciler SameRegion (scenarioShoot ''x'' ''aws'' ''eu-west-1'' None)
               [scenarioSeed ''seed-1'' ''aws'' ''eu-west-1''] [])
            (''garden-dev'', ''x'')))
   \<and> Reconcile scenarioEnv
     (scenarioReconciler SameRegion (scenarioShoot ''x'' ''aws'' ''eu-west-1'' (Some ''seed-1''))
        [scenarioSeed ''seed-1'' ''aws'' ''eu-west-1''] [])
     (''garden-dev'', ''x'')
     = \<lparr>result = Return (), events = [], calls = [GetShootCall (''garden-dev'', ''x'')]\<rparr>"
proof -
  let ?first = "scenarioReconciler SameRegion (scenarioShoot ''x'' ''aws'' ''eu-west-1'' None)
               [scenarioSeed ''seed-1'' ''aws'' ''eu-west-1''] []"
  let ?second = "scenarioReconciler SameRegion
     (scenarioShoot ''x'' ''aws'' ''eu-west-1'' (Some ''seed-1''))
        [scenarioSeed ''seed-1'' ''aws'' ''eu-west-1''] []"
  let ?written = "scenarioShoot ''x'' ''aws'' ''eu-west-1'' (Some ''seed-1'')"
  have w: "UpdateBindingCall ?written
       \<in> set (calls (Reconcile scenarioEnv ?first (''garden-dev'', ''x'')))"
    unfolding scenario_happy_path by simp
  have g: "GetShoot (Client ?second) (''garden-dev'', ''x'') = Inr ?written"
    by (simp add: scenario_defs)
  have b: "SeedName ?written \<noteq> None" by (simp add: scenarioShoot_def)
  note t = reconcile_noop_exactly_when_skipped[of scenarioEnv ?second "(''garden-dev'', ''x'')"
      ?written ?second scenarioEnv]
     reconcile_noop_exactly_when_skipped[of scenarioEnv ?first "(''garden-dev'', ''x'')"
      ?written ?second scenarioEnv]
  have 1: "result (Reconcile scenarioEnv ?second (''garden-dev'', ''x'')) = Return ()
      \<and> events (Reconcile scenarioEnv ?second (''garden-dev'', ''x'')) = []"
    using t(1) g b by blast
  have 2: "Reconcile scenarioEnv ?second (''garden-dev'', ''x'')
     = \<lparr>result = Return (), events = [], calls = [GetShootCall (''garden-dev'', ''x'')]\<rparr>"
    using t(2) w g by blast
  show ?thesis using 1 2 w by blast
qed

text \<open>
  Claim C10. For a Shoot whose \<open>seedName\<close> is set to the empty string, the reconcile returns
  done with no error, records no event, and its only call on the client is the read of the
  Shoot: it determines no candidates and writes no binding.
\<close>

theorem empty_seed_name_counts_as_scheduled:
  assumes "GetShoot (Client r) request = Inr shoot" "SeedName shoot = Some []"
  shows "Reconcile h r request =
           \<lparr>result = Return (), events = [], calls = [GetShootCall request]\<rparr>"
  using assms by (simp add: Reconcile_def)

theorem empty_seed_name_counts_as_scheduled_witness:
  "GetShoot (Client (scenarioReconciler MinimalDistance
       (scenarioShoot ''y'' ''gcp'' ''europe-west1'' (Some []))
       [scenarioSeed ''seed-1'' ''gcp'' ''europe-west1''] [])) (''garden-dev'', ''y'')
     = Inr (scenarioShoot ''y'' ''gcp'' ''europe-west1'' (Some []))
   \<and> SeedName (scenarioShoot ''y'' ''gcp'' ''europe-west1'' (Some [])) = Some []
   \<and> Reconcile scenarioEnv (scenarioReconciler MinimalDistance
       (scenarioShoot ''y'' ''gcp'' ''europe-west1'' (Some []))
       [scenarioSeed ''seed-1'' ''gcp'' ''europe-west1''] []) (''garden-dev'', ''y'')
     = \<lparr>result = Return (), events = [], calls = [GetShootCall (''garden-dev'', ''y'')]\<rparr>"
proof -
  let ?shoot = "scenarioShoot ''y'' ''gcp'' ''europe-west1'' (Some [])"
  let ?r = "scenarioReconciler MinimalDistance ?shoot
       [scenarioSeed ''seed-1'' ''gcp'' ''europe-west1''] []"
  have g: "GetShoot (Client ?r) (''garden-dev'', ''y'') = Inr ?shoot"
    by (simp add: scenario_defs)
  have n: "SeedName ?shoot = Some []" by (simp add: scenarioShoot_def)
  from empty_seed_name_counts_as_scheduled[OF g n, of scenarioEnv] g n
  show ?thesis by blast
qed

section \<open>An unknown strategy\<close>

text \<open>With a purpose that is set and is not \<open>testing\<close>, a strategy that is neither
  \<open>SameRegion\<close> nor \<open>MinimalDistance\<close> is an error of the strategy stage, and every error of
  the pipeline is recorded as an event \<open>ShootEventSchedulingFailed\<close> and returned for a
  retry.\<close>

lemma applyStrategy_unknown_strategy:
  assumes "strategy \<noteq> SameRegion" "strategy \<noteq> MinimalDistance"
      and "Purpose shoot = Some purpose" "purpose \<noteq> ShootPurposeTesting"
  shows "applyStrategy h shoot seedList strategy
           = Fail (ErrUnknownStrategy purpose strategy Strategies)"
  using assms by (simp add: applyStrategy_def)

lemma Reconcile_pipeline_error:
  assumes "GetShoot (Client r) request = Inr shoot"
      and "SeedName shoot = None" "DeletionTimestamp (shootMeta shoot) = None"
      and "determineSeed h (Client r) shoot (Strategy (Config r)) = (Fail err, reads)"
  shows "Reconcile h r request =
           \<lparr>result = Fail err, events = [failedSchedulingEvent shoot err],
            calls = GetShootCall request # reads\<rparr>"
  using assms by (simp add: Reconcile_def)

text \<open>
  Claim C8. The claim asks for an error, an event \<open>ShootEventSchedulingFailed\<close> and a retry
  for every Shoot whose purpose is not \<open>testing\<close> under a strategy that is neither
  \<open>SameRegion\<close> nor \<open>MinimalDistance\<close>. For a Shoot without purpose the strategy stage
  panics instead, and so does the reconcile, after its reads and without any event.
\<close>

theorem unknown_strategy_nil_purpose_panics:
  "applyStrategy scenarioEnv
     (scenarioShoot ''x'' ''aws'' ''eu-west-1'' None\<lparr>Purpose := None\<rparr>)
     [scenarioSeed ''seed-1'' ''aws'' ''eu-west-1''] ''Random'' = Panic
   \<and> Reconcile scenarioEnv
       (scenarioReconciler ''Random''
          (scenarioShoot ''x'' ''aws'' ''eu-west-1'' None\<lparr>Purpose := None\<rparr>)
          [scenarioSeed ''seed-1'' ''aws'' ''eu-west-1''] [])
       (''garden-dev'', ''x'')
     = \<lparr>result = Panic, events = [],
        calls = [GetShootCall (''garden-dev'', ''x''), ListSeedsCall, ListShootsCall,
                 GetCloudProfileCall ''profile'']\<rparr>"
  by (simp add: pipeline_defs constant_defs scenario_defs Let_def)

section \<open>Determinism of the pipeline\<close>

text \<open>The order in which the runtime ranges over a map is read by \<open>errorMapToString\<close> only:
  no other stage depends on it.\<close>

lemma bind_assoc: "bind (bind m f) g = bind m (\<lambda>x. bind (f x) g)"
  by (cases m) simp_all

lemma rangeOrder_filterSeedsMatchingLabelSelector:
  "filterSeedsMatchingLabelSelector (h\<lparr>rangeOrder := order\<rparr>) xs sel kind
     = filterSeedsMatchingLabelSelector h xs sel kind"
  by (simp add: filterSeedsMatchingLabelSelector_def Let_def split: option.splits sum.splits)

lemma rangeOrder_networksAreDisjointed:
  "networksAreDisjointed (h\<lparr>rangeOrder := order\<rparr>) seed shoot = networksAreDisjointed h seed shoot"
  by (simp add: networksAreDisjointed_def Let_def)

lemma rangeOrder_filterCandidates_loop:
  "filterCandidates_loop (h\<lparr>rangeOrder := order\<rparr>) shoot u xs acc
     = filterCandidates_loop h shoot u xs acc"
proof (induction xs arbitrary: acc)
  case Nil
  show ?case by simp
next
  case (Cons x xs)
  obtain c e where acc: "acc = (c, e)" by (cases acc)
  show ?case unfolding acc
    by (simp add: rangeOrder_networksAreDisjointed Cons.IH split: prod.splits)
qed

lemma rangeOrder_minimalDistance_loop:
  "minimalDistance_loop (h\<lparr>rangeOrder := order\<rparr>) shoot xs acc
     = minimalDistance_loop h shoot xs acc"
proof (induction xs arbitrary: acc)
  case Nil
  show ?case by simp
next
  case (Cons x xs)
  obtain m c where acc: "acc = (m, c)" by (cases acc)
  show ?case unfolding acc by (simp add: seedDistance_def Cons.IH Let_def)
qed

lemma rangeOrder_applyStrategy:
  "applyStrategy (h\<lparr>rangeOrder := order\<rparr>) shoot xs strategy = applyStrategy h shoot xs strategy"
  by (simp add: applyStrategy_def determineCandidatesWithMinimalDistanceStrategy_def
        rangeOrder_minimalDistance_loop Let_def)

text \<open>
  Claim C9, as stated, fails: on the same Shoot, Seed list, Shoot list, CloudProfile and
  strategy, two runs that range over the map of rejection reasons in different orders
  return different errors. Both orders visit every key of that map once.
\<close>

theorem pipeline_deterministic_counterexample:
  "determineSeed_stages scenarioEnv (scenarioShoot ''x'' ''aws'' ''eu-west-1'' None)
     [scenarioTaintedSeed ''seed-1'', scenarioTaintedSeed ''seed-2''] [] scenarioProfile
     SameRegion
   = Fail (ErrNoEligibleCandidates 2
       ''{seed-1 => shoot does not tolerate the seed's taints, seed-2 => shoot does not tolerate the seed's taints}'')
   \<and> determineSeed_stages scenarioEnvReversed (scenarioShoot ''x'' ''aws'' ''eu-west-1'' None)
     [scenarioTaintedSeed ''seed-1'', scenarioTaintedSeed ''seed-2''] [] scenarioProfile
     SameRegion
   = Fail (ErrNoEligibleCandidates 2
       ''{seed-2 => shoot does not tolerate the seed's taints, seed-1 => shoot does not tolerate the seed's taints}'')
   \<and> validRangeOrder scenarioEnv
       (snd (filterCandidates_loop scenarioEnv (scenarioShoot ''x'' ''aws'' ''eu-west-1'' None)
          (CalculateSeedUsage [])
          [scenarioTaintedSeed ''seed-1'', scenarioTaintedSeed ''seed-2''] ([], Map.empty)))
   \<and> validRangeOrder scenarioEnvReversed
       (snd (filterCandidates_loop scenarioEnv (scenarioShoot ''x'' ''aws'' ''eu-west-1'' None)
          (CalculateSeedUsage [])
          [scenarioTaintedSeed ''seed-1'', scenarioTaintedSeed ''seed-2''] ([], Map.empty)))"
  by (simp add: pipeline_defs constant_defs scenario_defs validRangeOrder_def Let_def
        insert_commute)

text \<open>
  Claim C9, amended. Two runs of the stages of \<open>determineSeed\<close> on the same Shoot, Seed
  list, Shoot list, CloudProfile and strategy, whatever the order in which each run ranges
  over a map, return the same Seed or the same error, or both fail in the eligibility
  stage with the same number of Seeds and the same map of rejection reasons, which each
  run prints in its own order.
\<close>

theorem pipeline_deterministic_up_to_range_order:
  "determineSeed_stages (h\<lparr>rangeOrder := order\<rparr>) shoot seedList shootList cloudProfile strategy
     = determineSeed_stages h shoot seedList shootList cloudProfile strategy
   \<or> (\<exists>n errs.
         determineSeed_stages h shoot seedList shootList cloudProfile strategy
           = Fail (ErrNoEligibleCandidates n (errorMapToString h errs))
       \<and> determineSeed_stages (h\<lparr>rangeOrder := order\<rparr>) shoot seedList shootList cloudProfile
           strategy
           = Fail (ErrNoEligibleCandidates n (errorMapToString (h\<lparr>rangeOrder := order\<rparr>) errs)))"
proof -
  let ?h' = "h\<lparr>rangeOrder := order\<rparr>"
  define pre where "pre =
     bind (filterUsableSeeds seedList) (\<lambda>filteredSeeds.
     bind (filterSeedsMatchingLabelSelector h filteredSeeds
             (cloudProfileSeedSelector cloudProfile) ''CloudProfile'') (\<lambda>filteredSeeds.
     bind (filterSeedsMatchingLabelSelector h filteredSeeds
             (shootSeedSelector shoot) ''Shoot'') (\<lambda>filteredSeeds.
     bind (filterSeedsMatchingProviders cloudProfile shoot filteredSeeds) (\<lambda>filteredSeeds.
     filterSeedsForZonalShootControlPlanes filteredSeeds shoot))))"
  define post where "post = (\<lambda>filteredSeeds.
     bind (applyStrategy h shoot filteredSeeds strategy) (\<lambda>filteredSeeds.
     getSeedWithLeastShootsDeployed filteredSeeds shootList))"
  have st: "determineSeed_stages h shoot seedList shootList cloudProfile strategy
      = bind pre (\<lambda>filteredSeeds. bind (filterCandidates h shoot shootList filteredSeeds) post)"
    unfolding determineSeed_stages_def pre_def post_def bind_assoc ..
  have st': "determineSeed_stages ?h' shoot seedList shootList cloudProfile strategy
      = bind pre (\<lambda>filteredSeeds. bind (filterCandidates ?h' shoot shootList filteredSeeds) post)"
    unfolding determineSeed_stages_def pre_def post_def bind_assoc
      rangeOrder_filterSeedsMatchingLabelSelector rangeOrder_applyStrategy ..
  show ?thesis
  proof (cases pre)
    case (Return f5)
    obtain c e where run: "filterCandidates_loop h shoot (CalculateSeedUsage shootList) f5
        ([], Map.empty) = (c, e)"
      by (cases "filterCandidates_loop h shoot (CalculateSeedUsage shootList) f5
        ([], Map.empty)")
    show ?thesis
    proof (cases "c = []")
      case True
      have "determineSeed_stages h shoot seedList shootList cloudProfile strategy
           = Fail (ErrNoEligibleCandidates (length f5) (errorMapToString h e))"
        unfolding st Return by (simp add: filterCandidates_def run True)
      moreover have "determineSeed_stages ?h' shoot seedList shootList cloudProfile strategy
           = Fail (ErrNoEligibleCandidates (length f5) (errorMapToString ?h' e))"
        unfolding st' Return
        by (simp add: filterCandidates_def rangeOrder_filterCandidates_loop run True)
      ultimately show ?thesis by blast
    next
      case False
      have "determineSeed_stages ?h' shoot seedList shootList cloudProfile strategy
          = determineSeed_stages h shoot seedList shootList cloudProfile strategy"
        unfolding st st' Return
        by (simp add: filterCandidates_def rangeOrder_filterCandidates_loop run False)
      then show ?thesis by blast
    qed
  next
    case (Fail err)
    show ?thesis unfolding st st' Fail by simp
  next
    case Panic
    show ?thesis unfolding st st' Panic by simp
  qed
qed

end
